theory Spec2Isabelle
  imports Complex_Main "HOL-Library.Sublist"
begin

section \<open>JavaScript values shared by the models\<close>

text \<open>
  The repository is TypeScript. The models below keep the source's names and follow its
  control flow. A string is a list of UTF-16 code units below 256 (the Latin-1 range);
  strings with other code units are outside the models. A JavaScript number is a double:
  \<open>NaN\<close>, an infinity, or a finite double given by its exact real value (the sign of
  zero is not modelled).
\<close>

datatype jsnumber = NaN | Finite real | PosInfinity | NegInfinity

subsection \<open>Rounding to a double\<close>

text \<open>
  \<open>round_double x\<close> is the double nearest to the real \<open>x\<close>, ties to the even mantissa,
  as IEEE 754 binary64 prescribes: the mantissa has 53 bits, the unit in the last place is
  \<open>2^(e - 52)\<close> for \<open>2^e \<le> |x| < 2^(e + 1)\<close>, with \<open>e\<close> no less than -1022 (below that the
  doubles are equally spaced), and a result of \<open>2^1024\<close> or more is an infinity.
\<close>

definition pow2 :: "int \<Rightarrow> real" where
  "pow2 k = (if k \<ge> 0 then 2 ^ nat k else 1 / 2 ^ nat (- k))"

text \<open>The \<open>e\<close> with \<open>2^e \<le> a < 2^(e + 1)\<close>, for a positive \<open>a\<close> between \<open>2^-1022\<close> and
  \<open>2^1024\<close>; the first argument bounds the number of steps.\<close>

fun binary_exponent :: "nat \<Rightarrow> real \<Rightarrow> int" where
  "binary_exponent fuel a =
     (if fuel = 0 then 0
      else if a \<ge> 2 then binary_exponent (fuel - 1) (a / 2) + 1
      else if a < 1 then binary_exponent (fuel - 1) (a * 2) - 1
      else 0)"

declare binary_exponent.simps [simp del]

definition round_half_even :: "real \<Rightarrow> int" where
  "round_half_even m =
     (let n = \<lfloor>m\<rfloor>; f = m - of_int n
      in if f < 1 / 2 then n else if f > 1 / 2 then n + 1 else if even n then n else n + 1)"

definition round_double :: "real \<Rightarrow> jsnumber" where
  "round_double x =
     (if x = 0 then Finite 0
      else
        (let a = \<bar>x\<bar>;
             inf = (if x < 0 then NegInfinity else PosInfinity)
         in if a \<ge> 2 ^ 1024 then inf
            else
              (let e = (if a < pow2 (- 1022) then - 1022 else binary_exponent 2100 a);
                   q = e - 52;
                   r = of_int (round_half_even (a / pow2 q)) * pow2 q
               in if r \<ge> 2 ^ 1024 then inf
                  else Finite (if x < 0 then - r else r))))"

text \<open>The product of two doubles.\<close>

fun mul_double :: "jsnumber \<Rightarrow> jsnumber \<Rightarrow> jsnumber" where
  "mul_double (Finite a) (Finite b) = round_double (a * b)"
| "mul_double NaN y = NaN"
| "mul_double x NaN = NaN"
| "mul_double (Finite a) PosInfinity = (if a = 0 then NaN else if a < 0 then NegInfinity else PosInfinity)"
| "mul_double (Finite a) NegInfinity = (if a = 0 then NaN else if a < 0 then PosInfinity else NegInfinity)"
| "mul_double PosInfinity (Finite b) = (if b = 0 then NaN else if b < 0 then NegInfinity else PosInfinity)"
| "mul_double NegInfinity (Finite b) = (if b = 0 then NaN else if b < 0 then PosInfinity else NegInfinity)"
| "mul_double PosInfinity PosInfinity = PosInfinity"
| "mul_double PosInfinity NegInfinity = NegInfinity"
| "mul_double NegInfinity PosInfinity = NegInfinity"
| "mul_double NegInfinity NegInfinity = PosInfinity"

text \<open>A value thrown by JavaScript code: an \<open>Error\<close> with its name and message, or any
  other value (for which \<open>err instanceof Error\<close> is false).\<close>

datatype js_thrown = Error (err_name: string) (err_message: string) | NonError

text \<open>The value of a cell of a result row (\<open>Record<string, any>\<close>).\<close>

datatype cell = CNum jsnumber | CStr string | CNull | CUndefined

subsection \<open>Printing integers, as a template literal does\<close>

definition digit_char :: "nat \<Rightarrow> char" where
  "digit_char n = (''0123456789'' ! (n mod 10))"

fun show_nat_aux :: "nat \<Rightarrow> nat \<Rightarrow> string \<Rightarrow> string" where
  "show_nat_aux 0 n acc = acc"
| "show_nat_aux (Suc fuel) n acc =
     (if n < 10 then digit_char n # acc
      else show_nat_aux fuel (n div 10) (digit_char n # acc))"

definition show_nat :: "nat \<Rightarrow> string" where
  "show_nat n = show_nat_aux (Suc n) n []"

definition show_int :: "int \<Rightarrow> string" where
  "show_int i = (if i < 0 then CHR ''-'' # show_nat (nat (- i)) else show_nat (nat i))"

text \<open>\<open>Array.prototype.join\<close> on strings.\<close>

fun join :: "string \<Rightarrow> string list \<Rightarrow> string" where
  "join sep [] = []"
| "join sep [x] = x"
| "join sep (x # y # ys) = x @ sep @ join sep (y # ys)"

section \<open>The data model of \<open>types.ts\<close>\<close>

datatype freshness = realtime | daily | weekly | monthly | annual

text \<open>\<open>fetchedAt\<close> is a \<open>Date\<close>: milliseconds since the epoch. A row is an object, modelled
  as a map from column name to cell (the order of its keys is not modelled).\<close>

record metadata =
  fetchedAt :: int
  rowCount :: nat
  columns :: "string list"
  freshness :: "freshness option"
  sourceUrl :: "string option"

record DataResult =
  source :: string
  dataset :: string
  data :: "(string \<rightharpoonup> cell) list"
  metadata :: metadata

record validation_error =
  path :: string
  message :: string

record ValidationResult =
  valid :: bool
  errors :: "validation_error list"
  warnings :: "string list"
  parsed :: "DataResult option"

section \<open>The validator: \<open>validateDataResult\<close>\<close>

text \<open>
  \<open>DataResultSchema.safeParse\<close> is the zod library's check of the candidate against the
  schema. Its verdict is an input of the model: either the list of issues (each with a
  path of segments and a message) or the parsed result. \<open>Date.now()\<close> is the parameter
  \<open>now\<close>, in milliseconds. The age in days is the exact quotient; for the whole
  milliseconds of a \<open>Date\<close> the double quotient compares with 30 in the same way.
\<close>

record zod_issue =
  issue_path :: "string list"
  issue_message :: string

datatype safeParse_result = ParseError "zod_issue list" | ParseSuccess DataResult

definition ageInDays :: "int \<Rightarrow> DataResult \<Rightarrow> real" where
  "ageInDays now r = real_of_int (now - fetchedAt (metadata r)) / (1000 * 60 * 60 * 24)"

fun validateDataResult :: "int \<Rightarrow> safeParse_result \<Rightarrow> ValidationResult" where
  "validateDataResult now (ParseError issues) =
     \<lparr> valid = False,
       errors = map (\<lambda>e. \<lparr> path = join ''.'' (issue_path e), message = issue_message e \<rparr>) issues,
       warnings = [],
       parsed = None \<rparr>"
| "validateDataResult now (ParseSuccess r) =
     (let warnings0 = [];
          warnings1 = (if ageInDays now r > 30
                       then warnings0 @ [''Data is '' @ show_int \<lfloor>ageInDays now r\<rfloor> @ '' days old'']
                       else warnings0);
          warnings2 = (if length (data r) = 0
                       then warnings1 @ [''Query returned no results'']
                       else warnings1)
      in \<lparr> valid = True, errors = [], warnings = warnings2, parsed = Some r \<rparr>)"

text \<open>A freshness warning is a warning of the form \<open>Data is N days old\<close>.\<close>

definition is_freshness_warning :: "string \<Rightarrow> bool" where
  "is_freshness_warning w \<longleftrightarrow>
     take 8 w = ''Data is '' \<and> drop (length w - 9) w = '' days old''"

definition day_ms :: int where
  "day_ms = 86400000"

definition fresh_result :: "int \<Rightarrow> DataResult" where
  "fresh_result t =
     \<lparr> source = ''census'', dataset = ''acs/acs1'',
       data = [[''NAME'' \<mapsto> CStr ''Alabama'']],
       metadata = \<lparr> fetchedAt = t, rowCount = 1, columns = [''NAME''],
                    freshness = Some annual, sourceUrl = None \<rparr> \<rparr>"

text \<open>
  The design document of the repository shows \<open>validateDataResult\<close> with a third check,
  \<open>calculateMissingRate(result.data.data) > 0.1\<close>. The function is not in the code.
  The definitions below follow the specification's words: the fraction of null or empty
  cells over all rows and declared columns.
\<close>

definition spec_cell_missing :: "cell option \<Rightarrow> bool" where
  "spec_cell_missing c \<longleftrightarrow> c = None \<or> c = Some CNull \<or> c = Some CUndefined \<or> c = Some (CStr [])"

definition spec_missing_cells :: "DataResult \<Rightarrow> nat" where
  "spec_missing_cells r =
     length (filter spec_cell_missing (concat (map (\<lambda>row. map row (columns (metadata r))) (data r))))"

definition spec_total_cells :: "DataResult \<Rightarrow> nat" where
  "spec_total_cells r = length (data r) * length (columns (metadata r))"

definition spec_missing_rate_exceeds_10_percent :: "DataResult \<Rightarrow> bool" where
  "spec_missing_rate_exceeds_10_percent r \<longleftrightarrow>
     spec_total_cells r > 0 \<and> 10 * spec_missing_cells r > spec_total_cells r"

definition null_result :: "int \<Rightarrow> DataResult" where
  "null_result t =
     \<lparr> source = ''census'', dataset = ''acs/acs1'',
       data = [[''NAME'' \<mapsto> CNull]],
       metadata = \<lparr> fetchedAt = t, rowCount = 1, columns = [''NAME''],
                    freshness = Some annual, sourceUrl = None \<rparr> \<rparr>"


section \<open>Strings: \<open>toLowerCase\<close> and \<open>includes\<close>\<close>

text \<open>\<open>toLowerCase\<close> on the code units below 256: the letters \<open>A\<close> to \<open>Z\<close>, and the
  Latin-1 capitals 0xC0 to 0xDE other than the multiplication sign 0xD7, move up by 32.\<close>

definition lower_char :: "char \<Rightarrow> char" where
  "lower_char c =
     (case map_of (zip ''ABCDEFGHIJKLMNOPQRSTUVWXYZ'' ''abcdefghijklmnopqrstuvwxyz'') c of
        Some d \<Rightarrow> d
      | None \<Rightarrow>
          (let n = (of_char c :: nat)
           in if 192 \<le> n \<and> n \<le> 222 \<and> n \<noteq> 215 then char_of (n + 32) else c))"

definition toLowerCase :: "string \<Rightarrow> string" where
  "toLowerCase s = map lower_char s"

fun startsWith :: "string \<Rightarrow> string \<Rightarrow> bool" where
  "startsWith s [] = True"
| "startsWith [] (p # ps) = False"
| "startsWith (c # s) (p # ps) = (c = p \<and> startsWith s ps)"

text \<open>\<open>s.includes(pat)\<close> (named \<open>includesStr\<close> here): \<open>pat\<close> occurs in \<open>s\<close> as a contiguous substring.\<close>

fun includesStr :: "string \<Rightarrow> string \<Rightarrow> bool" where
  "includesStr [] pat = (pat = [])"
| "includesStr (c # s) pat = (startsWith (c # s) pat \<or> includesStr s pat)"

section \<open>Dataset descriptors and HTTP replies\<close>

datatype category = government | academic | financial | health | international

text \<open>\<open>DatasetInfo\<close>. The optional fields \<open>variables\<close> and \<open>geography\<close> are never set by
  the code and are left out. \<open>lastUpdated\<close> holds the text handed to \<open>new Date\<close>.\<close>

record DatasetInfo =
  ds_id :: string
  ds_name :: string
  ds_description :: string
  ds_source :: string
  ds_category :: category
  ds_years :: "int list option"
  ds_lastUpdated :: "string option"

text \<open>
  Every adapter function issues one HTTP request; the reply to it is a parameter of the
  model. \<open>fetch\<close> either rejects (network failure, abort) or resolves with a response.
  \<open>json\<close> is what \<open>response.json()\<close> gives: the body decoded in the shape the code
  reads, or the value thrown when the body cannot be read that way.
\<close>

record 'j response =
  ok :: bool
  status :: nat
  statusText :: string
  body_text :: string
  json :: "js_thrown + 'j"

datatype 'j fetch_result = Rejected js_thrown | Resolved "'j response"

section \<open>World Bank adapter: \<open>search\<close>\<close>

definition POPULAR_INDICATORS :: "(string \<times> string \<times> string) list" where
  "POPULAR_INDICATORS =
   [(''NY.GDP.MKTP.CD'', ''GDP (current US$)'', ''Gross Domestic Product at market prices''),
    (''NY.GDP.PCAP.CD'', ''GDP per capita (current US$)'', ''GDP divided by midyear population''),
    (''NY.GDP.MKTP.KD.ZG'', ''GDP growth (annual %)'', ''Annual GDP growth rate''),
    (''SP.POP.TOTL'', ''Population, total'', ''Total population count''),
    (''SP.POP.GROW'', ''Population growth (annual %)'', ''Annual population growth rate''),
    (''SL.UEM.TOTL.ZS'', ''Unemployment (% of labor force)'', ''Unemployment as % of total labor force''),
    (''FP.CPI.TOTL.ZG'', ''Inflation (consumer prices)'', ''Annual inflation rate''),
    (''SL.TLF.CACT.ZS'', ''Labor force participation rate'', ''Labor force as % of population 15+''),
    (''SE.ADT.LITR.ZS'', ''Literacy rate (% adults)'', ''Adult literacy rate, ages 15+''),
    (''SP.DYN.LE00.IN'', ''Life expectancy at birth'', ''Total life expectancy in years''),
    (''SH.XPD.CHEX.PC.CD'', ''Health expenditure per capita'', ''Current health expenditure per capita in USD''),
    (''SE.XPD.TOTL.GD.ZS'', ''Education expenditure (% of GDP)'', ''Government expenditure on education''),
    (''EG.USE.ELEC.KH.PC'', ''Electric power consumption'', ''Electric power consumption per capita (kWh)''),
    (''EN.ATM.CO2E.PC'', ''CO2 emissions per capita'', ''CO2 emissions in metric tons per capita''),
    (''SI.POV.DDAY'', ''Poverty headcount ratio'', ''Population below $2.15/day (2017 PPP)'')]"

text \<open>An element of the indicator array the remote search returns.\<close>

record wb_indicator =
  ind_id :: string
  ind_name :: string
  ind_sourceNote :: "string option"

definition wb_info :: "string \<times> string \<times> string \<Rightarrow> DatasetInfo" where
  "wb_info e = (case e of (i, n, d) \<Rightarrow>
     \<lparr> ds_id = i, ds_name = n, ds_description = d, ds_source = ''worldbank'',
       ds_category = international, ds_years = None, ds_lastUpdated = None \<rparr>)"

definition wb_remote_info :: "wb_indicator \<Rightarrow> DatasetInfo" where
  "wb_remote_info ind =
     \<lparr> ds_id = ind_id ind, ds_name = ind_name ind,
       ds_description = (case ind_sourceNote ind of None \<Rightarrow> '''' | Some n \<Rightarrow> n),
       ds_source = ''worldbank'', ds_category = international,
       ds_years = None, ds_lastUpdated = None \<rparr>"

definition wb_local_search :: "string \<Rightarrow> DatasetInfo list" where
  "wb_local_search query =
     (let lowerQuery = toLowerCase query
      in map wb_info
           (filter (\<lambda>(i, n, d). includesStr (toLowerCase i) lowerQuery
                              \<or> includesStr (toLowerCase n) lowerQuery
                              \<or> includesStr (toLowerCase d) lowerQuery)
                   POPULAR_INDICATORS))"

text \<open>
  \<open>WorldBankDataSource.search\<close>. The decoded body is the second element of the returned
  pair when it is an array (\<open>Some\<close>), and \<open>None\<close> otherwise. The result is the console
  output and the settled promise (\<open>Inl\<close>: rejected, \<open>Inr\<close>: fulfilled).
\<close>

definition WorldBank_search ::
  "wb_indicator list option fetch_result \<Rightarrow> string \<Rightarrow> string list \<times> (js_thrown + DatasetInfo list)" where
  "WorldBank_search reply query =
     (case reply of
        Rejected e \<Rightarrow>
          ([''World Bank API search failed, using local search''], Inr (wb_local_search query))
      | Resolved response \<Rightarrow>
          if ok response then
            (case json response of
               Inl e \<Rightarrow>
                 ([''World Bank API search failed, using local search''], Inr (wb_local_search query))
             | Inr (Some data') \<Rightarrow> ([], Inr (map wb_remote_info data'))
             | Inr None \<Rightarrow> ([], Inr (wb_local_search query)))
          else ([], Inr (wb_local_search query)))"

section \<open>FRED adapter: \<open>search\<close>\<close>

definition POPULAR_SERIES :: "(string \<times> string \<times> string) list" where
  "POPULAR_SERIES =
   [(''GDP'', ''Gross Domestic Product'', ''US GDP in billions of dollars''),
    (''GDPC1'', ''Real GDP'', ''Real Gross Domestic Product, seasonally adjusted''),
    (''UNRATE'', ''Unemployment Rate'', ''Civilian unemployment rate''),
    (''CPIAUCSL'', ''Consumer Price Index'', ''CPI for All Urban Consumers''),
    (''FEDFUNDS'', ''Federal Funds Rate'', ''Effective Federal Funds Rate''),
    (''DGS10'', ''10-Year Treasury'', ''10-Year Treasury Constant Maturity Rate''),
    (''MORTGAGE30US'', ''30-Year Mortgage Rate'', ''30-Year Fixed Rate Mortgage Average''),
    (''DEXUSEU'', ''USD/EUR Exchange Rate'', ''US Dollar to Euro exchange rate''),
    (''SP500'', ''S&P 500'', ''S&P 500 Index''),
    (''PAYEMS'', ''Nonfarm Payrolls'', ''All Employees, Total Nonfarm''),
    (''HOUST'', ''Housing Starts'', ''New privately-owned housing units started''),
    (''RSXFS'', ''Retail Sales'', ''Advance Retail Sales: Retail and Food Services''),
    (''INDPRO'', ''Industrial Production'', ''Industrial Production Index''),
    (''M2SL'', ''M2 Money Supply'', ''M2 Money Stock''),
    (''PPIACO'', ''Producer Price Index'', ''Producer Price Index: All Commodities'')]"

text \<open>An element of \<open>data.seriess\<close> in the reply of the remote series search.\<close>

record fred_series =
  series_id :: string
  series_title :: string
  series_notes :: "string option"
  series_last_updated :: string

definition fred_info :: "string \<times> string \<times> string \<Rightarrow> DatasetInfo" where
  "fred_info e = (case e of (i, n, d) \<Rightarrow>
     \<lparr> ds_id = i, ds_name = n, ds_description = d, ds_source = ''fred'',
       ds_category = financial, ds_years = None, ds_lastUpdated = None \<rparr>)"

definition fred_remote_info :: "fred_series \<Rightarrow> DatasetInfo" where
  "fred_remote_info series =
     \<lparr> ds_id = series_id series, ds_name = series_title series,
       ds_description = (case series_notes series of None \<Rightarrow> '''' | Some n \<Rightarrow> n),
       ds_source = ''fred'', ds_category = financial,
       ds_years = None, ds_lastUpdated = Some (series_last_updated series) \<rparr>"

definition fred_local_search :: "string \<Rightarrow> DatasetInfo list" where
  "fred_local_search query =
     (let lowerQuery = toLowerCase query
      in map fred_info
           (filter (\<lambda>(i, n, d). includesStr (toLowerCase i) lowerQuery
                              \<or> includesStr (toLowerCase n) lowerQuery
                              \<or> includesStr (toLowerCase d) lowerQuery)
                   POPULAR_SERIES))"

text \<open>
  \<open>FredDataSource.search\<close>. The decoded body is \<open>data.seriess\<close> (\<open>None\<close> when absent).
  A response that is not ok throws inside the \<open>try\<close>, and the \<open>catch\<close> answers with the
  local search, as it does for a rejected fetch and for an unreadable body.
\<close>

definition Fred_search ::
  "fred_series list option fetch_result \<Rightarrow> string \<Rightarrow> js_thrown + DatasetInfo list" where
  "Fred_search reply query =
     (case reply of
        Rejected e \<Rightarrow> Inr (fred_local_search query)
      | Resolved response \<Rightarrow>
          if \<not> ok response then Inr (fred_local_search query)
          else (case json response of
                  Inl e \<Rightarrow> Inr (fred_local_search query)
                | Inr seriess \<Rightarrow>
                    Inr (map fred_remote_info (case seriess of None \<Rightarrow> [] | Some l \<Rightarrow> l))))"

text \<open>A reply with status 500 and no readable body, used in the examples.\<close>

definition http_500 :: "'j response" where
  "http_500 = \<lparr> ok = False, status = 500, statusText = ''Internal Server Error'',
                body_text = '''', json = Inl (Error ''SyntaxError'' ''Unexpected end of JSON input'') \<rparr>"

section \<open>Census adapter: \<open>search\<close>\<close>

definition ACS_VARIABLES :: "(string \<times> string) list" where
  "ACS_VARIABLES =
   [(''B01001_001E'', ''Total Population''),
    (''B01002_001E'', ''Median Age''),
    (''B19013_001E'', ''Median Household Income''),
    (''B19001_001E'', ''Household Income Distribution''),
    (''B25077_001E'', ''Median Home Value''),
    (''B25064_001E'', ''Median Gross Rent''),
    (''B23025_001E'', ''Employment Status''),
    (''B15003_001E'', ''Educational Attainment''),
    (''B02001_001E'', ''Race Total''),
    (''B03001_001E'', ''Hispanic Origin''),
    (''B25001_001E'', ''Total Housing Units''),
    (''B25002_001E'', ''Occupancy Status''),
    (''B08301_001E'', ''Means of Transportation to Work''),
    (''B17001_001E'', ''Poverty Status''),
    (''B27001_001E'', ''Health Insurance Coverage'')]"

definition CENSUS_DATASETS :: "DatasetInfo list" where
  "CENSUS_DATASETS =
   [\<lparr> ds_id = ''acs/acs1'', ds_name = ''American Community Survey 1-Year'',
      ds_description = ''Annual demographic, social, economic, and housing data for areas with 65,000+ population'',
      ds_source = ''census'', ds_category = government,
      ds_years = Some [2022, 2021, 2020, 2019, 2018], ds_lastUpdated = None \<rparr>,
    \<lparr> ds_id = ''acs/acs5'', ds_name = ''American Community Survey 5-Year'',
      ds_description = ''Five-year estimates for all geographic areas, including small populations'',
      ds_source = ''census'', ds_category = government,
      ds_years = Some [2022, 2021, 2020, 2019, 2018], ds_lastUpdated = None \<rparr>,
    \<lparr> ds_id = ''dec/pl'', ds_name = ''Decennial Census Redistricting Data'',
      ds_description = ''Population counts for redistricting purposes'',
      ds_source = ''census'', ds_category = government,
      ds_years = Some [2020, 2010], ds_lastUpdated = None \<rparr>,
    \<lparr> ds_id = ''pep/population'', ds_name = ''Population Estimates'',
      ds_description = ''Annual population estimates by age, sex, race, and Hispanic origin'',
      ds_source = ''census'', ds_category = government,
      ds_years = Some [2022, 2021, 2020, 2019], ds_lastUpdated = None \<rparr>]"

text \<open>\<open>CensusDataSource.search\<close>: local only, it issues no request.\<close>

definition Census_search :: "string \<Rightarrow> js_thrown + DatasetInfo list" where
  "Census_search query =
     (let lowerQuery = toLowerCase query;
          matchingDatasets =
            filter (\<lambda>dataset. includesStr (toLowerCase (ds_name dataset)) lowerQuery
                           \<or> includesStr (toLowerCase (ds_description dataset)) lowerQuery)
                   CENSUS_DATASETS;
          matchingVariables =
            map (\<lambda>(code, name).
                   \<lparr> ds_id = ''acs/acs5:'' @ code, ds_name = name,
                     ds_description = ''ACS variable: '' @ code, ds_source = ''census'',
                     ds_category = government, ds_years = None, ds_lastUpdated = None \<rparr>)
                (filter (\<lambda>(code, name). includesStr (toLowerCase name) lowerQuery) ACS_VARIABLES)
      in Inr (matchingDatasets @ matchingVariables))"

section \<open>The registry and \<open>searchAllSources\<close>\<close>

text \<open>
  The \<open>DataSource\<close> interface, as far as the router uses it. A method that returns a
  promise is modelled by its settled result: \<open>Inl\<close> a rejection, \<open>Inr\<close> the value.
\<close>

record DataSource =
  src_id :: string
  src_name :: string
  src_category :: category
  src_requiresApiKey :: bool
  search :: "string \<Rightarrow> js_thrown + DatasetInfo list"
  getDatasets :: "js_thrown + DatasetInfo list"

record DataSourceConfig =
  cfg_id :: string
  cfg_name :: string
  cfg_requiresApiKey :: bool
  cfg_category :: string
  getInstance :: "string option \<Rightarrow> DataSource"

text \<open>The replies of the network to the two remote searches.\<close>

record search_network =
  fred_search_reply :: "fred_series list option fetch_result"
  wb_search_reply :: "wb_indicator list option fetch_result"

definition CensusDataSource :: "string option \<Rightarrow> DataSource" where
  "CensusDataSource apiKey =
     \<lparr> src_id = ''census'', src_name = ''US Census Bureau'', src_category = government,
       src_requiresApiKey = False, search = Census_search, getDatasets = Inr CENSUS_DATASETS \<rparr>"

definition FredDataSource :: "search_network \<Rightarrow> string \<Rightarrow> DataSource" where
  "FredDataSource net apiKey =
     \<lparr> src_id = ''fred'', src_name = ''Federal Reserve Economic Data'', src_category = financial,
       src_requiresApiKey = True, search = Fred_search (fred_search_reply net),
       getDatasets = Inr (map fred_info POPULAR_SERIES) \<rparr>"

definition worldBankSource :: "search_network \<Rightarrow> DataSource" where
  "worldBankSource net =
     \<lparr> src_id = ''worldbank'', src_name = ''World Bank Open Data'', src_category = international,
       src_requiresApiKey = False, search = (\<lambda>query. snd (WorldBank_search (wb_search_reply net) query)),
       getDatasets = Inr (map wb_info POPULAR_INDICATORS) \<rparr>"

definition DATA_SOURCES :: "search_network \<Rightarrow> DataSourceConfig list" where
  "DATA_SOURCES net =
   [\<lparr> cfg_id = ''census'', cfg_name = ''US Census Bureau'', cfg_requiresApiKey = False,
      cfg_category = ''government'', getInstance = (\<lambda>apiKey. CensusDataSource apiKey) \<rparr>,
    \<lparr> cfg_id = ''fred'', cfg_name = ''Federal Reserve (FRED)'', cfg_requiresApiKey = True,
      cfg_category = ''financial'',
      getInstance = (\<lambda>apiKey. FredDataSource net (case apiKey of None \<Rightarrow> '''' | Some k \<Rightarrow> k)) \<rparr>,
    \<lparr> cfg_id = ''worldbank'', cfg_name = ''World Bank'', cfg_requiresApiKey = False,
      cfg_category = ''international'', getInstance = (\<lambda>apiKey. worldBankSource net) \<rparr>]"

text \<open>The values of the fulfilled entries of what \<open>Promise.allSettled\<close> returns, in the
  order of the promises given to it: \<open>filter(r => r.status === 'fulfilled')\<close> followed by
  reading \<open>r.value\<close>.\<close>

fun fulfilled_values :: "(js_thrown + 'a) list \<Rightarrow> 'a list" where
  "fulfilled_values [] = []"
| "fulfilled_values (Inl reason # rs) = fulfilled_values rs"
| "fulfilled_values (Inr v # rs) = v # fulfilled_values rs"

text \<open>\<open>searchAllSources\<close>, with the registry it iterates over as a parameter;
  the code's function is the instance at \<open>DATA_SOURCES\<close>. The ids of a registry are
  taken not to name a member that plain objects inherit, as is the case for
  \<open>DATA_SOURCES\<close>, so that \<open>apiKeys[config.id]\<close> is an own entry or \<open>undefined\<close>.\<close>

definition searchAllSourcesIn ::
  "DataSourceConfig list \<Rightarrow> string \<Rightarrow> (string \<rightharpoonup> string) \<Rightarrow> js_thrown + DatasetInfo list" where
  "searchAllSourcesIn registry query apiKeys =
     (let sources = map (\<lambda>config. getInstance config (apiKeys (cfg_id config))) registry;
          results = map (\<lambda>source. search source query) sources
      in Inr (concat (fulfilled_values results)))"

definition searchAllSources ::
  "search_network \<Rightarrow> string \<Rightarrow> (string \<rightharpoonup> string) \<Rightarrow> js_thrown + DatasetInfo list" where
  "searchAllSources net query apiKeys = searchAllSourcesIn (DATA_SOURCES net) query apiKeys"

text \<open>A source whose search always rejects, and a registry that holds it between the
  Census and the World Bank sources.\<close>

definition brokenSource :: DataSource where
  "brokenSource =
     \<lparr> src_id = ''broken'', src_name = ''Broken'', src_category = academic,
       src_requiresApiKey = False, search = (\<lambda>query. Inl (Error ''Error'' ''search failed'')),
       getDatasets = Inl (Error ''Error'' ''unavailable'') \<rparr>"

definition registry_with_broken :: "search_network \<Rightarrow> DataSourceConfig list" where
  "registry_with_broken net =
   [DATA_SOURCES net ! 0,
    \<lparr> cfg_id = ''broken'', cfg_name = ''Broken'', cfg_requiresApiKey = False,
      cfg_category = ''academic'', getInstance = (\<lambda>apiKey. brokenSource) \<rparr>,
    DATA_SOURCES net ! 2]"

definition offline :: search_network where
  "offline = \<lparr> fred_search_reply = Rejected (Error ''TypeError'' ''Failed to fetch''),
               wb_search_reply = Rejected (Error ''TypeError'' ''Failed to fetch'') \<rparr>"

section \<open>JavaScript conversions used by the adapters\<close>

text \<open>A scalar of a decoded JSON body; a number is the finite double that decoding gave.\<close>

datatype json_scalar = JString string | JNumber real | JNull

definition is_digit :: "char \<Rightarrow> bool" where
  "is_digit c \<longleftrightarrow> c \<in> set ''0123456789''"

definition digit_value :: "char \<Rightarrow> nat" where
  "digit_value c =
     (case map_of (zip ''0123456789abcdefABCDEF''
                       [0, 1, 2, 3, 4, 5, 6, 7, 8, 9, 10, 11, 12, 13, 14, 15, 10, 11, 12, 13, 14, 15]) c of
        Some n \<Rightarrow> n
      | None \<Rightarrow> 0)"

definition digits_value :: "nat \<Rightarrow> string \<Rightarrow> nat" where
  "digits_value base ds = foldl (\<lambda>acc c. base * acc + digit_value c) 0 ds"

text \<open>The white space and line terminator code units below 256: tab, line feed,
  vertical tab, form feed, carriage return, space and the no-break space.\<close>

definition is_whitespace :: "char \<Rightarrow> bool" where
  "is_whitespace c \<longleftrightarrow>
     c \<in> {CHR '' '', CHR 0x09, CHR 0x0A, CHR 0x0B, CHR 0x0C, CHR 0x0D, CHR 0xA0}"

definition trim :: "string \<Rightarrow> string" where
  "trim s = rev (dropWhile is_whitespace (rev (dropWhile is_whitespace s)))"

text \<open>The exponent part of a decimal literal: \<open>e\<close> or \<open>E\<close>, an optional sign, digits.
  The result is the factor to multiply with, \<open>None\<close> when the text is not an exponent.\<close>

definition exponent_factor :: "string \<Rightarrow> real option" where
  "exponent_factor s =
     (case s of
        [] \<Rightarrow> Some 1
      | c # t \<Rightarrow>
          if c = CHR ''e'' \<or> c = CHR ''E'' then
            (let neg = (t \<noteq> [] \<and> hd t = CHR ''-'');
                 ds = (if t \<noteq> [] \<and> (hd t = CHR ''-'' \<or> hd t = CHR ''+'') then tl t else t)
             in if ds \<noteq> [] \<and> list_all is_digit ds
                then Some (if neg then 1 / 10 ^ digits_value 10 ds else 10 ^ digits_value 10 ds)
                else None)
          else None)"

text \<open>An unsigned decimal literal: digits, an optional fraction, an optional exponent,
  with at least one digit before the exponent.\<close>

definition unsigned_decimal :: "string \<Rightarrow> real option" where
  "unsigned_decimal s =
     (let ip = takeWhile is_digit s;
          r1 = dropWhile is_digit s;
          fp = (if r1 \<noteq> [] \<and> hd r1 = CHR ''.'' then takeWhile is_digit (tl r1) else []);
          r2 = (if r1 \<noteq> [] \<and> hd r1 = CHR ''.'' then dropWhile is_digit (tl r1) else r1)
      in if ip = [] \<and> fp = [] then None
         else (case exponent_factor r2 of
                 None \<Rightarrow> None
               | Some f \<Rightarrow> Some (real (digits_value 10 (ip @ fp)) / 10 ^ length fp * f)))"

definition radix_literal :: "string \<Rightarrow> nat option" where
  "radix_literal s =
     (case s of
        c0 # c1 # ds \<Rightarrow>
          if c0 = CHR ''0'' \<and> ds \<noteq> [] then
            (if (c1 = CHR ''x'' \<or> c1 = CHR ''X'') \<and> list_all (\<lambda>c. c \<in> set ''0123456789abcdefABCDEF'') ds
             then Some (digits_value 16 ds)
             else if (c1 = CHR ''o'' \<or> c1 = CHR ''O'') \<and> list_all (\<lambda>c. c \<in> set ''01234567'') ds
             then Some (digits_value 8 ds)
             else if (c1 = CHR ''b'' \<or> c1 = CHR ''B'') \<and> list_all (\<lambda>c. c \<in> set ''01'') ds
             then Some (digits_value 2 ds)
             else None)
          else None
      | _ \<Rightarrow> None)"

text \<open>
  \<open>Number(s)\<close> for a string: white space is trimmed, the empty string is 0, then a
  radix literal, \<open>Infinity\<close> or a decimal literal with an optional sign; anything else is
  \<open>NaN\<close>. The number is the double nearest to the value the literal denotes, an
  infinity when that is out of range.
\<close>

definition string_to_number :: "string \<Rightarrow> jsnumber" where
  "string_to_number s =
     (let t = trim s in
      if t = [] then Finite 0
      else (case radix_literal t of
              Some n \<Rightarrow> round_double (real n)
            | None \<Rightarrow>
                (let neg = (hd t = CHR ''-'');
                     u = (if hd t = CHR ''-'' \<or> hd t = CHR ''+'' then tl t else t)
                 in if u = ''Infinity'' then (if neg then NegInfinity else PosInfinity)
                    else (case unsigned_decimal u of
                            None \<Rightarrow> NaN
                          | Some r \<Rightarrow> round_double (if neg then - r else r)))))"

text \<open>\<open>Number(value)\<close> for what an array read gives: a scalar, or \<open>undefined\<close> (\<open>None\<close>)
  when the index is out of range.\<close>

fun Number :: "json_scalar option \<Rightarrow> jsnumber" where
  "Number None = NaN"
| "Number (Some JNull) = Finite 0"
| "Number (Some (JNumber r)) = Finite r"
| "Number (Some (JString s)) = string_to_number s"

definition isNaN :: "jsnumber \<Rightarrow> bool" where
  "isNaN n \<longleftrightarrow> n = NaN"

text \<open>A value read from the payload, kept as it is in a result row.\<close>

fun as_cell :: "json_scalar option \<Rightarrow> cell" where
  "as_cell None = CUndefined"
| "as_cell (Some JNull) = CNull"
| "as_cell (Some (JNumber r)) = CNum (Finite r)"
| "as_cell (Some (JString s)) = CStr s"

text \<open>\<open>parseInt(s)\<close>: leading white space, an optional sign, an optional \<open>0x\<close>, then the
  longest run of digits, as the nearest double; \<open>NaN\<close> when there is none.\<close>

definition parseInt :: "string \<Rightarrow> jsnumber" where
  "parseInt s =
     (let t = dropWhile is_whitespace s;
          neg = (t \<noteq> [] \<and> hd t = CHR ''-'');
          u = (if t \<noteq> [] \<and> (hd t = CHR ''-'' \<or> hd t = CHR ''+'') then tl t else t);
          hex = (length u \<ge> 2 \<and> hd u = CHR ''0'' \<and> (u ! 1 = CHR ''x'' \<or> u ! 1 = CHR ''X''));
          ds = (if hex then takeWhile (\<lambda>c. c \<in> set ''0123456789abcdefABCDEF'') (drop 2 u)
                else takeWhile is_digit u)
      in if ds = [] then NaN
         else round_double ((if neg then - 1 else 1) * real (digits_value (if hex then 16 else 10) ds)))"

text \<open>\<open>array[index]\<close>: \<open>undefined\<close> outside the array.\<close>

definition at_index :: "'a list \<Rightarrow> nat \<Rightarrow> 'a option" where
  "at_index xs i = (if i < length xs then Some (xs ! i) else None)"

subsection \<open>URLs\<close>

text \<open>\<open>URLSearchParams\<close> serialises the UTF-8 bytes of a value: letters, digits and
  \<open>* - . _\<close> stay, a space becomes \<open>+\<close>, every other byte becomes \<open>%XX\<close>. A code unit
  from 128 to 255 has two UTF-8 bytes.\<close>

definition hex_digit :: "nat \<Rightarrow> char" where
  "hex_digit n = (''0123456789ABCDEF'' ! (n mod 16))"

definition percent_byte :: "nat \<Rightarrow> string" where
  "percent_byte b = [CHR ''%'', hex_digit (b div 16), hex_digit (b mod 16)]"

definition urlencode_char :: "char \<Rightarrow> string" where
  "urlencode_char c =
     (if c \<in> set ''ABCDEFGHIJKLMNOPQRSTUVWXYZabcdefghijklmnopqrstuvwxyz0123456789*-._'' then [c]
      else if c = CHR '' '' then ''+''
      else (let n = (of_char c :: nat)
            in if n < 128 then percent_byte n
               else percent_byte (192 + n div 64) @ percent_byte (128 + n mod 64)))"

definition urlencode :: "string \<Rightarrow> string" where
  "urlencode s = concat (map urlencode_char s)"

text \<open>\<open>s.replace(pat, rep)\<close> with a string pattern: only the first occurrence is
  replaced; the empty pattern matches at the start. (\<open>rep\<close> is \<open>[API_KEY]\<close> in the code,
  which has no \<open>$\<close> pattern.)\<close>

fun str_replace :: "string \<Rightarrow> string \<Rightarrow> string \<Rightarrow> string" where
  "str_replace [] pat rep = (if pat = [] then rep else [])"
| "str_replace (c # s) pat rep =
     (if startsWith (c # s) pat then rep @ drop (length pat) (c # s)
      else c # str_replace s pat rep)"

section \<open>The adapters' \<open>fetch\<close>\<close>

text \<open>\<open>FetchParams\<close>. A year is a number or a string; \<open>limit\<close> and \<open>offset\<close> are
  whole numbers. The field \<open>filters\<close> is read by no adapter and is left out.\<close>

datatype year_param = YearNum int | YearStr string

record FetchParams =
  variables :: "string list option"
  geography :: "string option"
  year :: "year_param option"
  limit :: "nat option"
  offset :: "nat option"

text \<open>\<open>x || d\<close> for an optional string: the default replaces \<open>undefined\<close> and \<open>''\<close>.\<close>

definition or_string :: "string option \<Rightarrow> string \<Rightarrow> string" where
  "or_string x d = (case x of None \<Rightarrow> d | Some s \<Rightarrow> if s = [] then d else s)"

definition year_truthy :: "year_param option \<Rightarrow> bool" where
  "year_truthy y = (case y of None \<Rightarrow> False | Some (YearNum n) \<Rightarrow> n \<noteq> 0 | Some (YearStr s) \<Rightarrow> s \<noteq> [])"

definition show_year :: "year_param \<Rightarrow> string" where
  "show_year y = (case y of YearNum n \<Rightarrow> show_int n | YearStr s \<Rightarrow> s)"

definition error_message :: "js_thrown \<Rightarrow> string" where
  "error_message e = (case e of Error n m \<Rightarrow> m | NonError \<Rightarrow> ''Unknown error'')"

subsection \<open>Census\<close>

text \<open>
  The decoded body of a Census reply: the header row and the data rows
  (\<open>const [headers, ...rows] = rawData\<close>, with \<open>header: string\<close>). A body that cannot be
  read this way is the \<open>Inl\<close> case of \<open>json\<close>. The request URL is the base URL written
  out, followed by the serialised search parameters; \<open>year\<close> and \<open>datasetId\<close> are taken
  to hold only characters that the URL parser keeps as they are.
\<close>

record census_rawData =
  headers :: "string list"
  rows :: "json_scalar list list"

definition census_variables :: "FetchParams \<Rightarrow> string list" where
  "census_variables params =
     (let variables0 = (case variables params of None \<Rightarrow> [''B01001_001E'', ''NAME''] | Some vs \<Rightarrow> vs)
      in if ''NAME'' \<notin> set variables0 then ''NAME'' # variables0 else variables0)"

definition census_url :: "string option \<Rightarrow> string \<Rightarrow> FetchParams \<Rightarrow> string" where
  "census_url apiKey datasetId params =
     (let year0 = (if year_truthy (year params) then the (year params) else YearNum 2022);
          geography0 = or_string (geography params) ''state:*''
      in ''https://api.census.gov/data'' @ ''/'' @ show_year year0 @ ''/'' @ datasetId
         @ ''?get='' @ urlencode (join '','' (census_variables params))
         @ ''&for='' @ urlencode geography0
         @ (case apiKey of
              None \<Rightarrow> []
            | Some k \<Rightarrow> if k = [] then [] else ''&key='' @ urlencode k))"

text \<open>The object built for one row. The assignment \<open>obj[header] = v\<close> with the header
  \<open>__proto__\<close> and a string, number or undefined \<open>v\<close> creates no key and changes nothing.\<close>

definition census_row :: "string list \<Rightarrow> json_scalar list \<Rightarrow> (string \<rightharpoonup> cell)" where
  "census_row hs row =
     fold (\<lambda>(header, index) obj.
             let value = at_index row index
             in if header = ''__proto__'' then obj
                else obj(header \<mapsto> (if isNaN (Number value) then as_cell value else CNum (Number value))))
          (zip hs [0 ..< length hs]) Map.empty"

definition Census_fetch ::
  "string option \<Rightarrow> int \<Rightarrow> census_rawData fetch_result \<Rightarrow> string \<Rightarrow> FetchParams
     \<Rightarrow> js_thrown + DataResult" where
  "Census_fetch apiKey now reply datasetId params =
     (let url = census_url apiKey datasetId params;
          failed = (\<lambda>e. Inl (Error ''Error'' (''Failed to fetch Census data: '' @ error_message e)))
      in case reply of
           Rejected e \<Rightarrow> failed e
         | Resolved resp \<Rightarrow>
             if \<not> ok resp then
               failed (Error ''Error'' (''Census API error: '' @ show_nat (status resp) @ '' - '' @ body_text resp))
             else
               (case json resp of
                  Inl e \<Rightarrow> failed e
                | Inr rawData \<Rightarrow>
                    (let data0 = map (census_row (headers rawData)) (rows rawData)
                     in Inr \<lparr> source = ''census'', dataset = datasetId, data = data0,
                              metadata = \<lparr> fetchedAt = now, rowCount = length data0,
                                           columns = headers rawData, freshness = Some annual,
                                           sourceUrl = Some (str_replace url (or_string apiKey '''') ''[API_KEY]'') \<rparr> \<rparr>)))"

subsection \<open>FRED\<close>

record fred_observation =
  obs_date :: string
  obs_value :: json_scalar

text \<open>The fields of a FRED body that the code reads; each may be absent.\<close>

record fred_rawData =
  observations :: "fred_observation list option"
  frequency_short :: "string option"
  error_message_field :: "string option"

definition determineFreshness :: "string option \<Rightarrow> freshness" where
  "determineFreshness frequencyCode =
     (if frequencyCode = Some ''D'' then daily
      else if frequencyCode = Some ''W'' then weekly
      else if frequencyCode = Some ''M'' then monthly
      else if frequencyCode = Some ''Q'' then monthly
      else if frequencyCode = Some ''A'' then annual
      else monthly)"

definition fred_row :: "string \<Rightarrow> fred_observation \<Rightarrow> (string \<rightharpoonup> cell)" where
  "fred_row seriesId obs =
     [''date'' \<mapsto> CStr (obs_date obs),
      ''value'' \<mapsto> (if obs_value obs = JString ''.'' then CNull else CNum (Number (Some (obs_value obs)))),
      ''seriesId'' \<mapsto> CStr seriesId]"

definition Fred_fetch ::
  "int \<Rightarrow> fred_rawData fetch_result \<Rightarrow> string \<Rightarrow> FetchParams \<Rightarrow> js_thrown + DataResult" where
  "Fred_fetch now reply seriesId params =
     (let failed = (\<lambda>e. Inl (Error ''Error'' (''Failed to fetch FRED data: '' @ error_message e)))
      in case reply of
           Rejected e \<Rightarrow> failed e
         | Resolved resp \<Rightarrow>
             if \<not> ok resp then
               (let detail = (case json resp of
                                Inl e \<Rightarrow> ''Unknown error''
                              | Inr errorData \<Rightarrow> or_string (error_message_field errorData) ''Unknown error'')
                in failed (Error ''Error'' (''FRED API error: '' @ show_nat (status resp) @ '' - '' @ detail)))
             else
               (case json resp of
                  Inl e \<Rightarrow> failed e
                | Inr rawData \<Rightarrow>
                    (let data0 = map (fred_row seriesId)
                                     (case observations rawData of None \<Rightarrow> [] | Some obs \<Rightarrow> obs)
                     in Inr \<lparr> source = ''fred'', dataset = seriesId, data = data0,
                              metadata = \<lparr> fetchedAt = now, rowCount = length data0,
                                           columns = [''date'', ''value'', ''seriesId''],
                                           freshness = Some (determineFreshness (frequency_short rawData)),
                                           sourceUrl = Some (''https://fred.stlouisfed.org/series/'' @ seriesId) \<rparr> \<rparr>)))"

subsection \<open>World Bank\<close>

text \<open>An element of the data array of a World Bank reply; \<open>value\<close> is a number or null.\<close>

record wb_item =
  country_id :: string
  country_value :: string
  countryiso3code :: "string option"
  item_date :: string
  item_value :: "real option"
  indicator_id :: string
  indicator_value :: string

definition wb_row :: "wb_item \<Rightarrow> (string \<rightharpoonup> cell)" where
  "wb_row item =
     [''country'' \<mapsto> CStr (country_value item),
      ''countryCode'' \<mapsto> CStr (or_string (countryiso3code item) (country_id item)),
      ''year'' \<mapsto> CNum (parseInt (item_date item)),
      ''value'' \<mapsto> (case item_value item of None \<Rightarrow> CNull | Some v \<Rightarrow> CNum (Finite v)),
      ''indicator'' \<mapsto> CStr (indicator_id item),
      ''indicatorName'' \<mapsto> CStr (indicator_value item)]"

definition wb_url :: "string \<Rightarrow> FetchParams \<Rightarrow> string" where
  "wb_url indicatorId params =
     (let country = or_string (geography params) ''all'';
          dateRange = (if year_truthy (year params) then show_year (the (year params)) else ''2010:2023'');
          perPage = (case limit params of None \<Rightarrow> 1000 | Some n \<Rightarrow> if n = 0 then 1000 else n)
      in ''https://api.worldbank.org/v2'' @ ''/country/'' @ country @ ''/indicator/'' @ indicatorId
         @ ''?format=json&per_page='' @ show_nat perPage @ ''&date='' @ dateRange)"

text \<open>\<open>WorldBankDataSource.fetch\<close>. The decoded body is the second element of the
  returned pair: \<open>None\<close> when it is missing or null, otherwise the array of items.\<close>

definition WorldBank_fetch ::
  "int \<Rightarrow> wb_item list option fetch_result \<Rightarrow> string \<Rightarrow> FetchParams \<Rightarrow> js_thrown + DataResult" where
  "WorldBank_fetch now reply indicatorId params =
     (let url = wb_url indicatorId params;
          failed = (\<lambda>e. Inl (Error ''Error'' (''Failed to fetch World Bank data: '' @ error_message e)))
      in case reply of
           Rejected e \<Rightarrow> failed e
         | Resolved resp \<Rightarrow>
             if \<not> ok resp then
               failed (Error ''Error'' (''World Bank API error: '' @ show_nat (status resp)))
             else
               (case json resp of
                  Inl e \<Rightarrow> failed e
                | Inr rawData \<Rightarrow>
                    if rawData = None \<or> length (the rawData) = 0 then
                      Inr \<lparr> source = ''worldbank'', dataset = indicatorId, data = [],
                            metadata = \<lparr> fetchedAt = now, rowCount = 0,
                                         columns = [''country'', ''countryCode'', ''year'', ''value'', ''indicator''],
                                         freshness = Some annual, sourceUrl = Some url \<rparr> \<rparr>
                    else
                      (let data0 = map wb_row (filter (\<lambda>item. item_value item \<noteq> None) (the rawData))
                       in Inr \<lparr> source = ''worldbank'', dataset = indicatorId, data = data0,
                                metadata = \<lparr> fetchedAt = now, rowCount = length data0,
                                             columns = [''country'', ''countryCode'', ''year'', ''value'',
                                                        ''indicator'', ''indicatorName''],
                                             freshness = Some annual,
                                             sourceUrl = Some (''https://data.worldbank.org/indicator/'' @ indicatorId) \<rparr> \<rparr>)))"

text \<open>Replies and parameters used in the examples.\<close>

definition ok_reply :: "'j \<Rightarrow> 'j fetch_result" where
  "ok_reply body = Resolved \<lparr> ok = True, status = 200, statusText = ''OK'', body_text = '''', json = Inr body \<rparr>"

definition no_params :: FetchParams where
  "no_params = \<lparr> variables = None, geography = None, year = None, limit = None, offset = None \<rparr>"

definition census_example :: census_rawData where
  "census_example =
     \<lparr> headers = [''NAME'', ''B01001_001E'', ''state''],
       rows = [[JString ''Alabama'', JString ''5074296'', JString ''01''],
               [JString ''Puerto Rico'', JNull, JString ''72'']] \<rparr>"

definition fred_example :: fred_rawData where
  "fred_example =
     \<lparr> observations = Some [\<lparr> obs_date = ''2020-01-01'', obs_value = JString ''21481.367'' \<rparr>,
                            \<lparr> obs_date = ''2020-04-01'', obs_value = JString ''.'' \<rparr>],
       frequency_short = Some ''Q'', error_message_field = None \<rparr>"

definition wb_example :: "wb_item list option" where
  "wb_example =
     Some [\<lparr> country_id = ''US'', country_value = ''United States'', countryiso3code = Some ''USA'',
             item_date = ''2020'', item_value = Some 331501080,
             indicator_id = ''SP.POP.TOTL'', indicator_value = ''Population, total'' \<rparr>,
           \<lparr> country_id = ''US'', country_value = ''United States'', countryiso3code = Some ''USA'',
             item_date = ''2023'', item_value = None,
             indicator_id = ''SP.POP.TOTL'', indicator_value = ''Population, total'' \<rparr>]"

text \<open>A Census row with a missing count (null) and a blank income.\<close>

definition census_gaps :: census_rawData where
  "census_gaps =
     \<lparr> headers = [''NAME'', ''B01001_001E'', ''B19013_001E''],
       rows = [[JString ''Puerto Rico'', JNull, JString '''']] \<rparr>"

text \<open>
  The reading of a payload cell that the specification gives: a numeric-looking cell
  becomes its number, every other cell is kept as it is. A cell is taken as
  numeric-looking when it is a number, or a string that is not blank and that \<open>Number\<close>
  does not map to \<open>NaN\<close>.
\<close>

definition spec_numeric_looking :: "json_scalar \<Rightarrow> bool" where
  "spec_numeric_looking v =
     (case v of
        JString s \<Rightarrow> trim s \<noteq> [] \<and> \<not> isNaN (string_to_number s)
      | JNumber r \<Rightarrow> True
      | JNull \<Rightarrow> False)"

definition spec_cell_coerced :: "json_scalar \<Rightarrow> cell \<Rightarrow> bool" where
  "spec_cell_coerced v c \<longleftrightarrow>
     (if spec_numeric_looking v then c = CNum (Number (Some v)) else c = as_cell (Some v))"

section \<open>The chat hook of \<open>useChat.ts\<close>\<close>

record ResponseMetadata =
  tokensUsed :: nat
  responseTime :: int
  model :: string
  cost :: jsnumber

record BatchResponse =
  providerId :: string
  response :: string
  batch_metadata :: ResponseMetadata
  error :: "string option"

subsection \<open>Property reads on plain objects\<close>

text \<open>
  \<open>apiKeys\<close>, \<open>providerConfigs\<close> and \<open>costPer1kTokens\<close> are plain objects, and
  \<open>object[key]\<close> also finds what every plain object inherits from \<open>Object.prototype\<close>.
  The inherited members are functions, and \<open>__proto__\<close> reads the prototype object; all
  of them are truthy, and none of them is a string or a configuration.
\<close>

definition object_prototype_keys :: "string list" where
  "object_prototype_keys =
     [''constructor'', ''__defineGetter__'', ''__defineSetter__'', ''hasOwnProperty'',
      ''__lookupGetter__'', ''__lookupSetter__'', ''isPrototypeOf'', ''propertyIsEnumerable'',
      ''toString'', ''valueOf'', ''__proto__'', ''toLocaleString'']"

text \<open>What \<open>apiKeys[providerId]\<close> gives: the string of an own entry, an inherited
  member, or \<open>undefined\<close>. The own entries of \<open>apiKeys\<close> are a map to strings.\<close>

datatype key_value = KeyUndefined | KeyText string | KeyInherited

definition read_apiKey :: "(string \<rightharpoonup> string) \<Rightarrow> string \<Rightarrow> key_value" where
  "read_apiKey apiKeys pid =
     (case apiKeys pid of
        Some k \<Rightarrow> KeyText k
      | None \<Rightarrow> if pid \<in> set object_prototype_keys then KeyInherited else KeyUndefined)"

text \<open>\<open>!apiKey\<close>: true of \<open>undefined\<close> and of the empty string.\<close>

definition key_falsy :: "key_value \<Rightarrow> bool" where
  "key_falsy k \<longleftrightarrow> k = KeyUndefined \<or> k = KeyText []"

subsection \<open>\<open>callProvider\<close>\<close>

text \<open>
  The fields of a provider's JSON body that the code reads: \<open>error?.message\<close> of an error
  body, and the paths the four \<open>parseResponse\<close> functions use. Each is \<open>None\<close> when the
  path is absent. The body, when it can be decoded, is taken to be a JSON object.
\<close>

record provider_body =
  body_error_message :: "string option"
  choices_0_message_content :: "string option"
  content_0_text :: "string option"
  usage_total_tokens :: "nat option"
  usage_input_tokens :: "nat option"
  usage_output_tokens :: "nat option"
  body_model :: "string option"

record parsed_response =
  content :: string
  parsed_tokensUsed :: "nat option"
  parsed_model :: "string option"

text \<open>The request handed to \<open>fetch\<close>: the endpoint, the headers, and the JSON body with
  the model, the list of messages (role and content) and \<open>max_tokens\<close>.\<close>

record http_request =
  req_endpoint :: string
  req_headers :: "(string \<times> string) list"
  req_model :: string
  req_messages :: "(string \<times> string) list"
  req_max_tokens :: nat

record provider_config =
  endpoint :: string
  make_headers :: "string \<Rightarrow> (string \<times> string) list"
  make_body :: "string \<Rightarrow> string \<times> (string \<times> string) list \<times> nat"
  parseResponse :: "provider_body \<Rightarrow> parsed_response"

definition or_nat :: "nat option \<Rightarrow> nat \<Rightarrow> nat" where
  "or_nat x d = (case x of None \<Rightarrow> d | Some n \<Rightarrow> if n = 0 then d else n)"

definition parse_choices :: "provider_body \<Rightarrow> parsed_response" where
  "parse_choices d =
     \<lparr> content = or_string (choices_0_message_content d) '''',
       parsed_tokensUsed = usage_total_tokens d,
       parsed_model = body_model d \<rparr>"

definition parse_anthropic :: "provider_body \<Rightarrow> parsed_response" where
  "parse_anthropic d =
     \<lparr> content = or_string (content_0_text d) '''',
       parsed_tokensUsed = Some (or_nat (usage_input_tokens d) 0 + or_nat (usage_output_tokens d) 0),
       parsed_model = body_model d \<rparr>"

text \<open>The own entries of \<open>providerConfigs\<close>. \<open>origin\<close> is \<open>window.location.origin\<close>,
  \<open>None\<close> when there is no \<open>window\<close>.\<close>

definition own_providerConfigs :: "string option \<Rightarrow> string \<Rightarrow> provider_config option" where
  "own_providerConfigs origin pid =
     (if pid = ''openai'' then Some
        \<lparr> endpoint = ''https://api.openai.com/v1/chat/completions'',
          make_headers = (\<lambda>key. [(''Authorization'', ''Bearer '' @ key), (''Content-Type'', ''application/json'')]),
          make_body = (\<lambda>msg. (''gpt-4-turbo-preview'', [(''user'', msg)], 4096)),
          parseResponse = parse_choices \<rparr>
      else if pid = ''anthropic'' then Some
        \<lparr> endpoint = ''https://api.anthropic.com/v1/messages'',
          make_headers = (\<lambda>key. [(''x-api-key'', key), (''Content-Type'', ''application/json''),
                                  (''anthropic-version'', ''2023-06-01'')]),
          make_body = (\<lambda>msg. (''claude-3-5-sonnet-20241022'', [(''user'', msg)], 4096)),
          parseResponse = parse_anthropic \<rparr>
      else if pid = ''openrouter'' then Some
        \<lparr> endpoint = ''https://openrouter.ai/api/v1/chat/completions'',
          make_headers = (\<lambda>key. [(''Authorization'', ''Bearer '' @ key), (''Content-Type'', ''application/json''),
                                  (''HTTP-Referer'', (case origin of None \<Rightarrow> '''' | Some org \<Rightarrow> org))]),
          make_body = (\<lambda>msg. (''anthropic/claude-3.5-sonnet'', [(''user'', msg)], 4096)),
          parseResponse = parse_choices \<rparr>
      else if pid = ''grok'' then Some
        \<lparr> endpoint = ''https://api.x.ai/v1/chat/completions'',
          make_headers = (\<lambda>key. [(''Authorization'', ''Bearer '' @ key), (''Content-Type'', ''application/json'')]),
          make_body = (\<lambda>msg. (''grok-beta'', [(''user'', msg)], 4096)),
          parseResponse = parse_choices \<rparr>
      else None)"

text \<open>\<open>providerConfigs[providerId]\<close>: an own configuration, an inherited member (which
  has no \<open>endpoint\<close>, \<open>headers\<close>, \<open>body\<close> or \<open>parseResponse\<close>), or \<open>undefined\<close>.\<close>

datatype config_value = ConfigUndefined | ConfigOwn provider_config | ConfigInherited

definition providerConfigs :: "string option \<Rightarrow> string \<Rightarrow> config_value" where
  "providerConfigs origin pid =
     (case own_providerConfigs origin pid of
        Some config \<Rightarrow> ConfigOwn config
      | None \<Rightarrow> if pid \<in> set object_prototype_keys then ConfigInherited else ConfigUndefined)"

text \<open>The own entries of \<open>costPer1kTokens\<close>: the doubles written \<open>0.01\<close> and \<open>0.015\<close>.\<close>

definition costPer1kTokens :: "(string \<times> jsnumber) list" where
  "costPer1kTokens =
     [(''openai'', round_double 0.01), (''anthropic'', round_double 0.015),
      (''openrouter'', round_double 0.015), (''grok'', round_double 0.01)]"

text \<open>\<open>calculateCost\<close>, in double arithmetic. The token count is a whole number held in
  a double. An inherited member as the rate makes the product \<open>NaN\<close>.\<close>

definition calculateCost :: "string \<Rightarrow> nat \<Rightarrow> jsnumber" where
  "calculateCost pid tokens =
     mul_double (round_double (real tokens / 1000))
       (case map_of costPer1kTokens pid of
          Some c \<Rightarrow> c
        | None \<Rightarrow> if pid \<in> set object_prototype_keys then NaN else round_double 0.01)"

record provider_reply =
  reply_parsed :: parsed_response
  reply_cost :: jsnumber

text \<open>What a task does that the outside can see: it invokes \<open>callProvider\<close> (with the
  provider id, the message and the key it read), and \<open>callProvider\<close> hands a request to
  \<open>fetch\<close>.\<close>

datatype event = CallProvider string string key_value | Fetch http_request

text \<open>The key as text in a header. Only own entries, which are strings, reach the
  headers: an inherited key comes with an inherited configuration.\<close>

definition key_text :: "key_value \<Rightarrow> string" where
  "key_text k = (case k of KeyText t \<Rightarrow> t | _ \<Rightarrow> [])"

definition empty_body :: provider_body where
  "empty_body =
     \<lparr> body_error_message = None, choices_0_message_content = None, content_0_text = None,
       usage_total_tokens = None, usage_input_tokens = None, usage_output_tokens = None,
       body_model = None \<rparr>"

text \<open>\<open>callProvider\<close>: the requests it issued and its settled promise. \<open>reply\<close> is the
  network's answer to the request; an aborted signal makes \<open>fetch\<close> reject with an error
  named \<open>AbortError\<close>. With an inherited member as the configuration, building the
  arguments of \<open>fetch\<close> calls \<open>config.headers\<close>, which is undefined: a \<open>TypeError\<close> is
  thrown (its message is the engine's; V8's is used) and no request is issued.\<close>

definition callProvider ::
  "string option \<Rightarrow> provider_body fetch_result \<Rightarrow> string \<Rightarrow> string \<Rightarrow> key_value
     \<Rightarrow> event list \<times> (js_thrown + provider_reply)" where
  "callProvider origin reply pid msg apiKey =
     (case providerConfigs origin pid of
        ConfigUndefined \<Rightarrow> ([], Inl (Error ''Error'' (''Unknown provider: '' @ pid)))
      | ConfigInherited \<Rightarrow> ([], Inl (Error ''TypeError'' ''config.headers is not a function''))
      | ConfigOwn config \<Rightarrow>
          ([Fetch (case make_body config msg of (m, msgs, mx) \<Rightarrow>
                     \<lparr> req_endpoint = endpoint config,
                       req_headers = make_headers config (key_text apiKey),
                       req_model = m, req_messages = msgs, req_max_tokens = mx \<rparr>)],
           (case reply of
              Rejected e \<Rightarrow> Inl e
            | Resolved resp \<Rightarrow>
                if \<not> ok resp then
                  (let errorData = (case json resp of Inl e \<Rightarrow> empty_body | Inr d \<Rightarrow> d)
                   in Inl (Error ''Error''
                            (or_string (body_error_message errorData)
                               (pid @ '' API error: '' @ show_nat (status resp) @ '' '' @ statusText resp))))
                else
                  (case json resp of
                     Inl e \<Rightarrow> Inl e
                   | Inr d \<Rightarrow>
                       (let parsed = parseResponse config d;
                            cost0 = calculateCost pid (or_nat (parsed_tokensUsed parsed) 0)
                        in Inr \<lparr> reply_parsed = parsed, reply_cost = cost0 \<rparr>)))))"

subsection \<open>\<open>sendMessage\<close>\<close>

text \<open>
  The callbacks of the hook's options. Each is optional; a call returns normally
  (\<open>None\<close>) or throws (\<open>Some\<close> of the thrown value).
\<close>

record hook_options =
  onResponse :: "(string \<Rightarrow> string \<Rightarrow> ResponseMetadata \<Rightarrow> js_thrown option) option"
  onError :: "(string \<Rightarrow> string \<Rightarrow> js_thrown option) option"
  onComplete :: "(unit \<Rightarrow> js_thrown option) option"

definition call_onResponse :: "hook_options \<Rightarrow> string \<Rightarrow> string \<Rightarrow> ResponseMetadata \<Rightarrow> js_thrown option" where
  "call_onResponse opts pid text md = (case onResponse opts of None \<Rightarrow> None | Some f \<Rightarrow> f pid text md)"

definition call_onError :: "hook_options \<Rightarrow> string \<Rightarrow> string \<Rightarrow> js_thrown option" where
  "call_onError opts pid msg = (case onError opts of None \<Rightarrow> None | Some f \<Rightarrow> f pid msg)"

definition call_onComplete :: "hook_options \<Rightarrow> js_thrown option" where
  "call_onComplete opts = (case onComplete opts of None \<Rightarrow> None | Some f \<Rightarrow> f ())"

text \<open>
  What the world does for one provider call: the network's reply and the readings of
  \<open>Date.now()\<close>: before the call, when its promise has settled, and in the \<open>catch\<close> block
  when that is entered after a throw from \<open>onResponse\<close>.
\<close>

record call_env =
  fetch_reply :: "provider_body fetch_result"
  startTime :: int
  doneTime :: int
  catchTime :: int

definition errorResponseFor :: "string \<Rightarrow> int \<Rightarrow> string \<Rightarrow> BatchResponse" where
  "errorResponseFor pid t msg =
     \<lparr> providerId = pid, response = '''',
       batch_metadata = \<lparr> tokensUsed = 0, responseTime = t, model = '''', cost = Finite 0 \<rparr>,
       error = Some msg \<rparr>"

text \<open>The \<open>catch\<close> block of a task: an error outcome, handed to \<open>onError\<close> first.\<close>

definition caught :: "hook_options \<Rightarrow> string \<Rightarrow> int \<Rightarrow> js_thrown \<Rightarrow> js_thrown + BatchResponse" where
  "caught opts pid t err =
     (let errorMessage = error_message err;
          errorResponse = errorResponseFor pid t errorMessage
      in case call_onError opts pid errorMessage of
           Some thrown \<Rightarrow> Inl thrown
         | None \<Rightarrow> Inr errorResponse)"

text \<open>\<open>response.cost || 0\<close>: zero replaces \<open>NaN\<close> (and zero).\<close>

definition or_zero :: "jsnumber \<Rightarrow> jsnumber" where
  "or_zero n = (if n = NaN then Finite 0 else n)"

text \<open>The async function mapped over \<open>providers\<close>: what it did and how its promise
  settled (\<open>Inl\<close>: rejected, \<open>Inr\<close>: fulfilled with an outcome).\<close>

definition providerTask ::
  "hook_options \<Rightarrow> string option \<Rightarrow> call_env \<Rightarrow> string \<Rightarrow> (string \<rightharpoonup> string) \<Rightarrow> string
     \<Rightarrow> event list \<times> (js_thrown + BatchResponse)" where
  "providerTask opts origin env msg apiKeys pid =
     (if key_falsy (read_apiKey apiKeys pid) then
        (let errorResponse = errorResponseFor pid 0 (''No API key configured for '' @ pid)
         in ([], case call_onError opts pid (''No API key configured for '' @ pid) of
                   Some thrown \<Rightarrow> Inl thrown
                 | None \<Rightarrow> Inr errorResponse))
      else
        (let apiKey = read_apiKey apiKeys pid;
             called = callProvider origin (fetch_reply env) pid msg apiKey
         in (CallProvider pid msg apiKey # fst called,
             (case snd called of
                Inl err \<Rightarrow> caught opts pid (doneTime env - startTime env) err
              | Inr r \<Rightarrow>
                  (let result =
                         \<lparr> providerId = pid, response = content (reply_parsed r),
                           batch_metadata =
                             \<lparr> tokensUsed = or_nat (parsed_tokensUsed (reply_parsed r)) 0,
                               responseTime = doneTime env - startTime env,
                               model = or_string (parsed_model (reply_parsed r)) pid,
                               cost = or_zero (reply_cost r) \<rparr>,
                           error = None \<rparr>
                   in case call_onResponse opts pid (response result) (batch_metadata result) of
                        Some thrown \<Rightarrow> caught opts pid (catchTime env - startTime env) thrown
                      | None \<Rightarrow> Inr result)))))"

text \<open>The state of the hook after the call, the returned list, and what each task did
  (one trace per requested provider, in the order of \<open>providers\<close>).\<close>

record hook_state =
  isLoading :: bool
  hook_error :: "string option"
  abortController_set :: bool

record send_result =
  responses :: "BatchResponse list"
  final_state :: hook_state
  traces :: "event list list"

definition sendMessage ::
  "hook_options \<Rightarrow> string option \<Rightarrow> (nat \<Rightarrow> call_env) \<Rightarrow> string \<Rightarrow> string list \<Rightarrow> (string \<rightharpoonup> string)
     \<Rightarrow> send_result" where
  "sendMessage opts origin envs msg providers apiKeys =
     (let promises = map (\<lambda>(i, pid). providerTask opts origin (envs i) msg apiKeys pid)
                         (enumerate 0 providers);
          results = map snd promises;
          responses0 = fulfilled_values results;
          error0 = (case call_onComplete opts of
                      None \<Rightarrow> None
                    | Some err \<Rightarrow>
                        Some (case err of
                                Error n m \<Rightarrow> if n = ''AbortError'' then ''Request cancelled'' else m
                              | NonError \<Rightarrow> ''Unknown error''))
      in \<lparr> responses = responses0,
           final_state = \<lparr> isLoading = False, hook_error = error0, abortController_set = False \<rparr>,
           traces = map fst promises \<rparr>)"

text \<open>Outcomes are successes (no \<open>error\<close>) or failures.\<close>

definition is_success :: "BatchResponse \<Rightarrow> bool" where
  "is_success r \<longleftrightarrow> error r = None"

definition is_failure :: "BatchResponse \<Rightarrow> bool" where
  "is_failure r \<longleftrightarrow> error r \<noteq> None"

text \<open>Options and worlds used in the examples.\<close>

definition no_callbacks :: hook_options where
  "no_callbacks = \<lparr> onResponse = None, onError = None, onComplete = None \<rparr>"

definition throwing_onError :: hook_options where
  "throwing_onError =
     \<lparr> onResponse = None,
       onError = Some (\<lambda>pid msg. Some (Error ''Error'' ''onError failed'')),
       onComplete = None \<rparr>"

definition hello_body :: provider_body where
  "hello_body = empty_body \<lparr> choices_0_message_content := Some ''hello'',
                             usage_total_tokens := Some 10, body_model := Some ''gpt-4-turbo'' \<rparr>"

definition answering :: call_env where
  "answering = \<lparr> fetch_reply = ok_reply hello_body, startTime = 1000, doneTime = 1250, catchTime = 1250 \<rparr>"

definition aborted :: call_env where
  "aborted = \<lparr> fetch_reply = Rejected (Error ''AbortError'' ''The user aborted a request.''),
               startTime = 1000, doneTime = 1250, catchTime = 1250 \<rparr>"

definition failing_with_abort_text :: call_env where
  "failing_with_abort_text =
     \<lparr> fetch_reply = Resolved \<lparr> ok = False, status = 500, statusText = ''Internal Server Error'',
                                body_text = '''',
                                json = Inr (empty_body \<lparr> body_error_message := Some ''The user aborted a request.'' \<rparr>) \<rparr>,
       startTime = 1000, doneTime = 1250, catchTime = 1250 \<rparr>"

section \<open>Verified properties\<close>

subsection \<open>Doubles\<close>

lemmas double_eval = round_double_def round_half_even_def pow2_def binary_exponent.simps

lemma round_double_not_NaN: "round_double x \<noteq> NaN"
  by (simp add: round_double_def Let_def)

lemmas number_eval =
  string_to_number_def trim_def is_whitespace_def radix_literal_def unsigned_decimal_def
  is_digit_def exponent_factor_def digits_value_def digit_value_def Let_def

text \<open>Rounding and overflow: \<open>2^53 + 1\<close> is not a double and rounds to the even
  neighbour, \<open>1e400\<close> is beyond the range, and a no-break space is trimmed.\<close>

lemma rounding_examples:
  "string_to_number ''9007199254740993'' = Finite 9007199254740992"
  "string_to_number ''1e400'' = PosInfinity"
  "string_to_number [CHR 0xA0, CHR ''7''] = Finite 7"
  "string_to_number ''0.5'' = Finite 0.5"
  by (simp_all add: number_eval double_eval)

subsection \<open>Freshness\<close>

lemma ageInDays_gt_30: "ageInDays now r > 30 \<longleftrightarrow> now - fetchedAt (metadata r) > 30 * day_ms"
proof -
  have "ageInDays now r > 30 \<longleftrightarrow> real_of_int (now - fetchedAt (metadata r)) > 30 * 86400000"
    by (simp add: ageInDays_def field_simps)
  also have "\<dots> \<longleftrightarrow> real_of_int (now - fetchedAt (metadata r)) > real_of_int (30 * 86400000)"
    by simp
  also have "\<dots> \<longleftrightarrow> now - fetchedAt (metadata r) > 30 * 86400000"
    by (simp only: of_int_less_iff)
  finally show ?thesis by (simp add: day_ms_def)
qed

lemma freshness_text_is_warning:
  "is_freshness_warning (''Data is '' @ s @ '' days old'')"
  by (simp add: is_freshness_warning_def)

lemma empty_text_not_freshness: "\<not> is_freshness_warning ''Query returned no results''"
  by (simp add: is_freshness_warning_def)

text \<open>
  Claim C3. For a structurally valid candidate (the schema check succeeded),
  \<open>validateDataResult\<close> puts a freshness warning in the warnings list if and only if
  the time elapsed since \<open>metadata.fetchedAt\<close> is more than 30 days.
\<close>

theorem validate_freshness_iff:
  "(\<exists>w \<in> set (warnings (validateDataResult now (ParseSuccess r))). is_freshness_warning w)
     \<longleftrightarrow> now - fetchedAt (metadata r) > 30 * day_ms"
proof (cases "ageInDays now r > 30")
  case True
  then have "\<exists>w \<in> set (warnings (validateDataResult now (ParseSuccess r))). is_freshness_warning w"
    using freshness_text_is_warning [of "show_int \<lfloor>ageInDays now r\<rfloor>"]
    by (auto simp: Let_def)
  with True show ?thesis by (simp only: ageInDays_gt_30)
next
  case False
  then have "\<not> (\<exists>w \<in> set (warnings (validateDataResult now (ParseSuccess r))). is_freshness_warning w)"
    by (auto simp: Let_def empty_text_not_freshness)
  with False show ?thesis by (simp only: ageInDays_gt_30)
qed

text \<open>The two boundary cases of the claim: 31 days old gives the warning
  \<open>Data is 31 days old\<close>, 29 days old gives no warning at all.\<close>

theorem validate_freshness_iff_witness:
  "(\<exists>w \<in> set (warnings (validateDataResult (31 * day_ms) (ParseSuccess (fresh_result 0)))).
      is_freshness_warning w)
   \<and> \<not> (\<exists>w \<in> set (warnings (validateDataResult (29 * day_ms) (ParseSuccess (fresh_result 0)))).
      is_freshness_warning w)
   \<and> warnings (validateDataResult (31 * day_ms) (ParseSuccess (fresh_result 0))) = [''Data is 31 days old'']
   \<and> warnings (validateDataResult (29 * day_ms) (ParseSuccess (fresh_result 0))) = []"
proof -
  have s: "show_int 31 = ''31''" by code_simp
  have a: "warnings (validateDataResult (31 * day_ms) (ParseSuccess (fresh_result 0))) = [''Data is 31 days old'']"
    by (simp add: fresh_result_def day_ms_def ageInDays_def s)
  have b: "warnings (validateDataResult (29 * day_ms) (ParseSuccess (fresh_result 0))) = []"
    by (simp add: fresh_result_def day_ms_def ageInDays_def)
  from validate_freshness_iff [of "31 * day_ms" "fresh_result 0"]
       validate_freshness_iff [of "29 * day_ms" "fresh_result 0"]
  have "(\<exists>w \<in> set (warnings (validateDataResult (31 * day_ms) (ParseSuccess (fresh_result 0)))).
      is_freshness_warning w)
   \<and> \<not> (\<exists>w \<in> set (warnings (validateDataResult (29 * day_ms) (ParseSuccess (fresh_result 0)))).
      is_freshness_warning w)"
    by (simp add: fresh_result_def day_ms_def)
  with a b show ?thesis by blast
qed

subsection \<open>Missing values\<close>

lemma validate_warnings_only_two:
  "set (warnings (validateDataResult now (ParseSuccess r)))
     \<subseteq> {''Data is '' @ show_int \<lfloor>ageInDays now r\<rfloor> @ '' days old'', ''Query returned no results''}"
  by (auto simp: Let_def)

text \<open>
  Claim C4. A structurally valid result whose rate of null or empty cells exceeds 10%
  should get a missing-value-rate warning. The code has no such check: for a result
  fetched at the time of validation, with one row whose only declared column is null (a
  rate of 100%), the list of warnings is empty.
\<close>

theorem validate_all_null_no_warning:
  "spec_missing_rate_exceeds_10_percent (null_result t)
   \<and> valid (validateDataResult t (ParseSuccess (null_result t)))
   \<and> warnings (validateDataResult t (ParseSuccess (null_result t))) = []"
  by (simp add: null_result_def spec_missing_rate_exceeds_10_percent_def spec_total_cells_def
        spec_missing_cells_def spec_cell_missing_def ageInDays_def)

subsection \<open>Search: substring matching and the local fallback\<close>

lemma startsWith_prefix: "startsWith s p \<longleftrightarrow> prefix p s"
  by (induction s p rule: startsWith.induct) auto

lemma includesStr_sublist: "includesStr s p \<longleftrightarrow> sublist p s"
  by (induction s) (auto simp: startsWith_prefix sublist_Cons_right)

lemma wb_local_search_spec:
  "wb_local_search q =
     map wb_info (filter (\<lambda>(i, n, d). sublist (toLowerCase q) (toLowerCase i)
                                   \<or> sublist (toLowerCase q) (toLowerCase n)
                                   \<or> sublist (toLowerCase q) (toLowerCase d)) POPULAR_INDICATORS)"
  by (simp add: wb_local_search_def Let_def includesStr_sublist)

lemma fred_local_search_spec:
  "fred_local_search q =
     map fred_info (filter (\<lambda>(i, n, d). sublist (toLowerCase q) (toLowerCase i)
                                   \<or> sublist (toLowerCase q) (toLowerCase n)
                                   \<or> sublist (toLowerCase q) (toLowerCase d)) POPULAR_SERIES)"
  by (simp add: fred_local_search_def Let_def includesStr_sublist)

text \<open>
  Claim C9. When the remote search of the World Bank adapter or of the FRED adapter fails
  (the request is rejected, or the response is not ok), \<open>search\<close> does not reject: it
  is fulfilled with the entries of the adapter's catalog, in catalog order, whose id, name
  or description contains the query as a substring, both sides in lower case.
\<close>

theorem search_falls_back_to_local:
  assumes "wb_reply = Rejected e1 \<or> (\<exists>r. wb_reply = Resolved r \<and> \<not> ok r)"
    and "fred_reply = Rejected e2 \<or> (\<exists>r. fred_reply = Resolved r \<and> \<not> ok r)"
  shows "snd (WorldBank_search wb_reply q) =
           Inr (map wb_info (filter (\<lambda>(i, n, d). sublist (toLowerCase q) (toLowerCase i)
                                   \<or> sublist (toLowerCase q) (toLowerCase n)
                                   \<or> sublist (toLowerCase q) (toLowerCase d)) POPULAR_INDICATORS))
       \<and> Fred_search fred_reply q =
           Inr (map fred_info (filter (\<lambda>(i, n, d). sublist (toLowerCase q) (toLowerCase i)
                                   \<or> sublist (toLowerCase q) (toLowerCase n)
                                   \<or> sublist (toLowerCase q) (toLowerCase d)) POPULAR_SERIES))"
proof
  show "snd (WorldBank_search wb_reply q) =
           Inr (map wb_info (filter (\<lambda>(i, n, d). sublist (toLowerCase q) (toLowerCase i)
                                   \<or> sublist (toLowerCase q) (toLowerCase n)
                                   \<or> sublist (toLowerCase q) (toLowerCase d)) POPULAR_INDICATORS))"
    using assms(1) by (auto simp: WorldBank_search_def wb_local_search_spec)
  show "Fred_search fred_reply q =
           Inr (map fred_info (filter (\<lambda>(i, n, d). sublist (toLowerCase q) (toLowerCase i)
                                   \<or> sublist (toLowerCase q) (toLowerCase n)
                                   \<or> sublist (toLowerCase q) (toLowerCase d)) POPULAR_SERIES))"
    using assms(2) by (auto simp: Fred_search_def fred_local_search_spec)
qed

theorem search_falls_back_to_local_witness:
  "((Rejected (Error ''TypeError'' ''Failed to fetch'') :: wb_indicator list option fetch_result) = Rejected (Error ''TypeError'' ''Failed to fetch'')
     \<or> (\<exists>r. (Rejected (Error ''TypeError'' ''Failed to fetch'') :: wb_indicator list option fetch_result) = Resolved r \<and> \<not> ok r))
   \<and> ((Resolved http_500 :: fred_series list option fetch_result) = Rejected NonError \<or> (\<exists>r. (Resolved http_500 :: fred_series list option fetch_result) = Resolved r \<and> \<not> ok r))
   \<and> map ds_id (projr (snd (WorldBank_search (Rejected (Error ''TypeError'' ''Failed to fetch'')) ''GDP''))) =
         [''NY.GDP.MKTP.CD'', ''NY.GDP.PCAP.CD'', ''NY.GDP.MKTP.KD.ZG'', ''SE.XPD.TOTL.GD.ZS'']
   \<and> map ds_id (projr (Fred_search (Resolved http_500) ''rate'')) =
         [''UNRATE'', ''FEDFUNDS'', ''DGS10'', ''MORTGAGE30US'', ''DEXUSEU'']"
proof -
  have h2: "(Resolved http_500 :: fred_series list option fetch_result) = Rejected NonError \<or> (\<exists>r. (Resolved http_500 :: fred_series list option fetch_result) = Resolved r \<and> \<not> ok r)"
    by (simp add: http_500_def)
  have w: "map ds_id (wb_local_search ''GDP'') = [''NY.GDP.MKTP.CD'', ''NY.GDP.PCAP.CD'', ''NY.GDP.MKTP.KD.ZG'', ''SE.XPD.TOTL.GD.ZS'']"
    by code_simp
  have f: "map ds_id (fred_local_search ''rate'') = [''UNRATE'', ''FEDFUNDS'', ''DGS10'', ''MORTGAGE30US'', ''DEXUSEU'']"
    by code_simp
  have a: "snd (WorldBank_search (Rejected (Error ''TypeError'' ''Failed to fetch'')) ''GDP'') = Inr (wb_local_search ''GDP'')"
    using search_falls_back_to_local [OF disjI1 [OF refl] h2, of "Error ''TypeError'' ''Failed to fetch''" "''GDP''"]
    by (simp only: wb_local_search_spec)
  have b: "Fred_search (Resolved http_500) ''rate'' = Inr (fred_local_search ''rate'')"
    using search_falls_back_to_local [OF disjI1 [OF refl] h2, of "Error ''TypeError'' ''Failed to fetch''" "''rate''"]
    by (simp only: fred_local_search_spec)
  show ?thesis using h2 by (simp add: a b w f)
qed

subsection \<open>Searching all sources\<close>

lemma concat_fulfilled_values:
  "concat (fulfilled_values (map f xs)) =
     concat (map (\<lambda>x. case f x of Inl e \<Rightarrow> [] | Inr v \<Rightarrow> v) xs)"
proof (induction xs)
  case Nil
  show ?case by simp
next
  case (Cons x xs)
  then show ?case by (cases "f x") simp_all
qed

text \<open>
  Claim C5. For every registry and query, \<open>searchAllSources\<close> is fulfilled (it never
  rejects) with the concatenation, in registry order, of what each source's search
  returned; a source whose search rejects contributes the empty list, and the matches of
  the other sources are unchanged.
\<close>

theorem searchAll_ordered_concat:
  "searchAllSourcesIn registry query apiKeys =
     Inr (concat (map (\<lambda>config.
            case search (getInstance config (apiKeys (cfg_id config))) query of
              Inl e \<Rightarrow> []
            | Inr matches \<Rightarrow> matches) registry))"
  unfolding searchAllSourcesIn_def Let_def map_map
  using concat_fulfilled_values [of "(\<lambda>source. search source query) \<circ> (\<lambda>config. getInstance config (apiKeys (cfg_id config)))" registry]
  by (simp add: comp_def)


text \<open>With a source that always rejects between the Census and the World Bank sources,
  the result is the Census matches followed by the World Bank matches.\<close>

theorem searchAll_ordered_concat_witness:
  "searchAllSourcesIn (registry_with_broken offline) ''population'' Map.empty =
     Inr (projr (Census_search ''population'') @ wb_local_search ''population'')
   \<and> map ds_id (projr (searchAllSourcesIn (registry_with_broken offline) ''population'' Map.empty)) =
     [''acs/acs1'', ''acs/acs5'', ''dec/pl'', ''pep/population'', ''acs/acs5:B01001_001E'',
      ''NY.GDP.PCAP.CD'', ''SP.POP.TOTL'', ''SP.POP.GROW'', ''SL.TLF.CACT.ZS'', ''SI.POV.DDAY'']"
proof -
  have c: "(case Census_search q of Inl e \<Rightarrow> [] | Inr matches \<Rightarrow> matches) = projr (Census_search q)" for q
    by (simp add: Census_search_def Let_def)
  have a: "searchAllSourcesIn (registry_with_broken offline) ''population'' Map.empty =
     Inr (projr (Census_search ''population'') @ wb_local_search ''population'')"
    using searchAll_ordered_concat [of "registry_with_broken offline" "''population''" Map.empty] c [of "''population''"]
    by (simp add: registry_with_broken_def DATA_SOURCES_def CensusDataSource_def worldBankSource_def
          brokenSource_def offline_def WorldBank_search_def)
  have b: "map ds_id (projr (Census_search ''population'') @ wb_local_search ''population'') =
     [''acs/acs1'', ''acs/acs5'', ''dec/pl'', ''pep/population'', ''acs/acs5:B01001_001E'',
      ''NY.GDP.PCAP.CD'', ''SP.POP.TOTL'', ''SP.POP.GROW'', ''SL.TLF.CACT.ZS'', ''SI.POV.DDAY'']"
    by code_simp
  show ?thesis using b by (simp add: a)
qed

subsection \<open>Fetch: row count\<close>

text \<open>
  Claim C10. Whenever the \<open>fetch\<close> of the Census, the FRED or the World Bank adapter is
  fulfilled, \<open>metadata.rowCount\<close> of the result is the length of its \<open>data\<close> array; this
  covers the World Bank branch that returns no rows.
\<close>

theorem fetch_rowCount_is_length:
  "(Census_fetch apiKey now reply1 datasetId params = Inr res1 \<longrightarrow> rowCount (metadata res1) = length (data res1))
   \<and> (Fred_fetch now reply2 seriesId params = Inr res2 \<longrightarrow> rowCount (metadata res2) = length (data res2))
   \<and> (WorldBank_fetch now reply3 indicatorId params = Inr res3 \<longrightarrow> rowCount (metadata res3) = length (data res3))"
proof (intro conjI impI)
  assume "Census_fetch apiKey now reply1 datasetId params = Inr res1"
  then show "rowCount (metadata res1) = length (data res1)"
    by (auto simp: Census_fetch_def Let_def split: fetch_result.splits sum.splits if_splits)
next
  assume "Fred_fetch now reply2 seriesId params = Inr res2"
  then show "rowCount (metadata res2) = length (data res2)"
    by (auto simp: Fred_fetch_def Let_def split: fetch_result.splits sum.splits if_splits)
next
  assume "WorldBank_fetch now reply3 indicatorId params = Inr res3"
  then show "rowCount (metadata res3) = length (data res3)"
    by (auto simp: WorldBank_fetch_def Let_def split: fetch_result.splits sum.splits if_splits)
qed

lemma Census_fetch_ok:
  "Census_fetch apiKey now (ok_reply body) datasetId params =
     Inr \<lparr> source = ''census'', dataset = datasetId, data = map (census_row (headers body)) (rows body),
           metadata = \<lparr> fetchedAt = now, rowCount = length (rows body),
                        columns = headers body, freshness = Some annual,
                        sourceUrl = Some (str_replace (census_url apiKey datasetId params) (or_string apiKey '''') ''[API_KEY]'') \<rparr> \<rparr>"
  by (simp add: Census_fetch_def ok_reply_def Let_def)

lemma Fred_fetch_ok:
  "Fred_fetch now (ok_reply body) seriesId params =
     Inr \<lparr> source = ''fred'', dataset = seriesId,
           data = map (fred_row seriesId) (case observations body of None \<Rightarrow> [] | Some obs \<Rightarrow> obs),
           metadata = \<lparr> fetchedAt = now,
                        rowCount = length (case observations body of None \<Rightarrow> [] | Some obs \<Rightarrow> obs),
                        columns = [''date'', ''value'', ''seriesId''],
                        freshness = Some (determineFreshness (frequency_short body)),
                        sourceUrl = Some (''https://fred.stlouisfed.org/series/'' @ seriesId) \<rparr> \<rparr>"
  by (simp add: Fred_fetch_def ok_reply_def Let_def)

text \<open>Three fulfilled fetches: a Census table, FRED observations, and a World Bank
  reply without data.\<close>

theorem fetch_rowCount_is_length_witness:
  "Census_fetch None 0 (ok_reply census_example) ''acs/acs1'' no_params
     = Inr (projr (Census_fetch None 0 (ok_reply census_example) ''acs/acs1'' no_params))
   \<and> Fred_fetch 0 (ok_reply fred_example) ''GDP'' no_params
     = Inr (projr (Fred_fetch 0 (ok_reply fred_example) ''GDP'' no_params))
   \<and> WorldBank_fetch 0 (ok_reply None) ''SP.POP.TOTL'' no_params
     = Inr (projr (WorldBank_fetch 0 (ok_reply None) ''SP.POP.TOTL'' no_params))
   \<and> rowCount (metadata (projr (Census_fetch None 0 (ok_reply census_example) ''acs/acs1'' no_params)))
     = length (data (projr (Census_fetch None 0 (ok_reply census_example) ''acs/acs1'' no_params)))
   \<and> rowCount (metadata (projr (Fred_fetch 0 (ok_reply fred_example) ''GDP'' no_params)))
     = length (data (projr (Fred_fetch 0 (ok_reply fred_example) ''GDP'' no_params)))
   \<and> rowCount (metadata (projr (WorldBank_fetch 0 (ok_reply None) ''SP.POP.TOTL'' no_params)))
     = length (data (projr (WorldBank_fetch 0 (ok_reply None) ''SP.POP.TOTL'' no_params)))"
proof -
  have c: "Census_fetch None 0 (ok_reply census_example) ''acs/acs1'' no_params
     = Inr (projr (Census_fetch None 0 (ok_reply census_example) ''acs/acs1'' no_params))"
    by (simp add: Census_fetch_ok)
  have f: "Fred_fetch 0 (ok_reply fred_example) ''GDP'' no_params
     = Inr (projr (Fred_fetch 0 (ok_reply fred_example) ''GDP'' no_params))"
    by (simp add: Fred_fetch_ok)
  have w: "WorldBank_fetch 0 (ok_reply None) ''SP.POP.TOTL'' no_params
     = Inr (projr (WorldBank_fetch 0 (ok_reply None) ''SP.POP.TOTL'' no_params))"
    by (simp add: WorldBank_fetch_def ok_reply_def Let_def)
  from fetch_rowCount_is_length [of None 0 "ok_reply census_example" "''acs/acs1''" no_params
      "projr (Census_fetch None 0 (ok_reply census_example) ''acs/acs1'' no_params)"
      "ok_reply fred_example" "''GDP''"
      "projr (Fred_fetch 0 (ok_reply fred_example) ''GDP'' no_params)"
      "ok_reply None" "''SP.POP.TOTL''"
      "projr (WorldBank_fetch 0 (ok_reply None) ''SP.POP.TOTL'' no_params)"]
  show ?thesis using c f w by blast
qed

subsection \<open>Fetch: coercion of cells\<close>

text \<open>
  Claim C8. Numeric-looking cells should become numbers and every other cell should stay
  a string or null. The Census adapter tests \<open>isNaN(Number(value))\<close>, and \<open>Number\<close> maps
  null and the empty string to 0: in a fulfilled fetch of a row with a null count and a
  blank income, both cells become the number 0, while the name stays a string.
\<close>

theorem census_null_and_blank_become_zero:
  "Census_fetch None t (ok_reply census_gaps) ''acs/acs5'' no_params
      = Inr (projr (Census_fetch None t (ok_reply census_gaps) ''acs/acs5'' no_params))
   \<and> (data (projr (Census_fetch None t (ok_reply census_gaps) ''acs/acs5'' no_params)) ! 0) ''NAME''
      = Some (CStr ''Puerto Rico'')
   \<and> (data (projr (Census_fetch None t (ok_reply census_gaps) ''acs/acs5'' no_params)) ! 0) ''B01001_001E''
      = Some (CNum (Finite 0))
   \<and> (data (projr (Census_fetch None t (ok_reply census_gaps) ''acs/acs5'' no_params)) ! 0) ''B19013_001E''
      = Some (CNum (Finite 0))
   \<and> \<not> spec_cell_coerced JNull (CNum (Finite 0))
   \<and> \<not> spec_cell_coerced (JString '''') (CNum (Finite 0))"
proof -
  have n: "string_to_number ''Puerto Rico'' = NaN" by code_simp
  have b: "string_to_number '''' = Finite 0" by (simp add: string_to_number_def trim_def)
  have row: "census_row [''NAME'', ''B01001_001E'', ''B19013_001E''] [JString ''Puerto Rico'', JNull, JString '''']
      = [''NAME'' \<mapsto> CStr ''Puerto Rico'', ''B01001_001E'' \<mapsto> CNum (Finite 0),
         ''B19013_001E'' \<mapsto> CNum (Finite 0)]"
    by (simp add: census_row_def at_index_def isNaN_def n b upt_rec)
  have 1: "Census_fetch None t (ok_reply census_gaps) ''acs/acs5'' no_params
      = Inr (projr (Census_fetch None t (ok_reply census_gaps) ''acs/acs5'' no_params))"
    by (simp add: Census_fetch_ok)
  have d: "data (projr (Census_fetch None t (ok_reply census_gaps) ''acs/acs5'' no_params))
      = [[''NAME'' \<mapsto> CStr ''Puerto Rico'', ''B01001_001E'' \<mapsto> CNum (Finite 0),
          ''B19013_001E'' \<mapsto> CNum (Finite 0)]]"
    by (simp add: Census_fetch_ok census_gaps_def row)
  have 5: "\<not> spec_cell_coerced JNull (CNum (Finite 0))"
    by (simp add: spec_cell_coerced_def spec_numeric_looking_def)
  have 6: "\<not> spec_cell_coerced (JString '''') (CNum (Finite 0))"
    by (simp add: spec_cell_coerced_def spec_numeric_looking_def trim_def)
  from 1 5 6 show ?thesis unfolding d by simp
qed

subsection \<open>Fetch: the source URL\<close>

lemma str_replace_empty_pattern: "str_replace s [] rep = rep @ s"
  by (cases s) simp_all

lemma census_sourceUrl_no_key:
  assumes "apiKey = None \<or> apiKey = Some []"
  shows "sourceUrl (metadata (projr (Census_fetch apiKey now (ok_reply body) datasetId params)))
           = Some (''[API_KEY]'' @ census_url apiKey datasetId params)"
  using assms by (auto simp: Census_fetch_ok or_string_def str_replace_empty_pattern)

text \<open>
  Claim C7. The Census adapter's \<open>sourceUrl\<close> should be the request URL with the
  credential redacted, and the URL itself when there is no credential. Without a key the
  code puts \<open>[API_KEY]\<close> in front of the URL (the pattern given to \<open>replace\<close> is then the
  empty string); and since only the first occurrence of the key is replaced, the key
  \<open>data\<close> is replaced in the path and stays in the query.
\<close>

theorem census_sourceUrl_without_key:
  "census_url None ''acs/acs1'' no_params
      = ''https://api.census.gov/data/2022/acs/acs1?get=B01001_001E%2CNAME&for=state%3A*''
   \<and> Census_fetch None 0 (ok_reply census_example) ''acs/acs1'' no_params
      = Inr (projr (Census_fetch None 0 (ok_reply census_example) ''acs/acs1'' no_params))
   \<and> sourceUrl (metadata (projr (Census_fetch None 0 (ok_reply census_example) ''acs/acs1'' no_params)))
      = Some ''[API_KEY]https://api.census.gov/data/2022/acs/acs1?get=B01001_001E%2CNAME&for=state%3A*''
   \<and> sourceUrl (metadata (projr (Census_fetch (Some ''data'') 0 (ok_reply census_example) ''acs/acs1'' no_params)))
      = Some ''https://api.census.gov/[API_KEY]/2022/acs/acs1?get=B01001_001E%2CNAME&for=state%3A*&key=data''"
proof -
  have u: "census_url None ''acs/acs1'' no_params
      = ''https://api.census.gov/data/2022/acs/acs1?get=B01001_001E%2CNAME&for=state%3A*''"
    by code_simp
  have k: "str_replace (census_url (Some ''data'') ''acs/acs1'' no_params) ''data'' ''[API_KEY]''
      = ''https://api.census.gov/[API_KEY]/2022/acs/acs1?get=B01001_001E%2CNAME&for=state%3A*&key=data''"
    by code_simp
  have s: "Census_fetch None 0 (ok_reply census_example) ''acs/acs1'' no_params
      = Inr (projr (Census_fetch None 0 (ok_reply census_example) ''acs/acs1'' no_params))"
    by (simp add: Census_fetch_ok)
  have a: "sourceUrl (metadata (projr (Census_fetch None 0 (ok_reply census_example) ''acs/acs1'' no_params)))
      = Some ''[API_KEY]https://api.census.gov/data/2022/acs/acs1?get=B01001_001E%2CNAME&for=state%3A*''"
    using census_sourceUrl_no_key [of None 0 census_example "''acs/acs1''" no_params]
    by (simp only: u) simp
  have b: "sourceUrl (metadata (projr (Census_fetch (Some ''data'') 0 (ok_reply census_example) ''acs/acs1'' no_params)))
      = Some ''https://api.census.gov/[API_KEY]/2022/acs/acs1?get=B01001_001E%2CNAME&for=state%3A*&key=data''"
    using k by (simp add: Census_fetch_ok or_string_def)
  from u s a b show ?thesis by blast
qed

subsection \<open>Dispatch: one outcome per provider\<close>

lemma fulfilled_values_all:
  "(\<forall>r \<in> set rs. \<exists>b. r = Inr b) \<Longrightarrow> fulfilled_values rs = map projr rs"
  by (induction rs rule: fulfilled_values.induct) auto

lemma caught_fulfilled:
  "call_onError opts pid (error_message err) = None \<Longrightarrow>
     caught opts pid t err = Inr (errorResponseFor pid t (error_message err))"
  by (simp add: caught_def Let_def)

lemma providerTask_fulfilled:
  assumes "\<forall>p m. call_onError opts p m = None"
  shows "\<exists>b. snd (providerTask opts origin env msg apiKeys pid) = Inr b \<and> providerId b = pid"
  using assms
  by (auto simp: providerTask_def Let_def caught_fulfilled errorResponseFor_def
           split: sum.splits option.splits)

lemma responses_when_onError_returns:
  assumes "\<forall>p m. call_onError opts p m = None"
  shows "responses (sendMessage opts origin envs msg providers apiKeys) =
           map (\<lambda>(i, pid). projr (snd (providerTask opts origin (envs i) msg apiKeys pid)))
               (enumerate 0 providers)"
proof -
  have "\<forall>r \<in> set (map snd (map (\<lambda>(i, pid). providerTask opts origin (envs i) msg apiKeys pid)
                                  (enumerate 0 providers))). \<exists>b. r = Inr b"
    using providerTask_fulfilled [OF assms] by fastforce
  then show ?thesis
    by (simp add: sendMessage_def Let_def fulfilled_values_all split_def comp_def)
qed

lemma providerId_of_task:
  assumes "\<forall>p m. call_onError opts p m = None"
  shows "providerId (projr (snd (providerTask opts origin env msg apiKeys pid))) = pid"
  using providerTask_fulfilled [OF assms, of origin env msg apiKeys pid] by auto

lemma success_or_failure:
  "length (filter is_success rs) + length (filter is_failure rs) = length rs"
  by (induction rs) (auto simp: is_success_def is_failure_def)

text \<open>
  Claim C1, amended. If the \<open>onError\<close> callback, when one is configured, returns normally
  on every call, then \<open>sendMessage\<close> returns exactly one outcome per requested provider id,
  in the order of \<open>providers\<close>, and the number of successes plus the number of failures is
  the number of requested providers.
\<close>

theorem one_outcome_per_provider:
  assumes "\<forall>p m. call_onError opts p m = None"
  shows "map providerId (responses (sendMessage opts origin envs msg providers apiKeys)) = providers
         \<and> length (filter is_success (responses (sendMessage opts origin envs msg providers apiKeys)))
           + length (filter is_failure (responses (sendMessage opts origin envs msg providers apiKeys)))
           = length providers"
proof
  show ids: "map providerId (responses (sendMessage opts origin envs msg providers apiKeys)) = providers"
  proof -
    have "map providerId (responses (sendMessage opts origin envs msg providers apiKeys)) =
            map snd (enumerate 0 providers)"
      by (simp add: responses_when_onError_returns [OF assms] split_def comp_def providerId_of_task [OF assms])
    then show ?thesis by simp
  qed
  have "length (responses (sendMessage opts origin envs msg providers apiKeys)) = length providers"
    using ids by (metis length_map)
  then show "length (filter is_success (responses (sendMessage opts origin envs msg providers apiKeys)))
           + length (filter is_failure (responses (sendMessage opts origin envs msg providers apiKeys)))
           = length providers"
    by (simp add: success_or_failure)
qed

lemmas dispatch_eval =
  sendMessage_def providerTask_def callProvider_def providerConfigs_def own_providerConfigs_def
  read_apiKey_def key_falsy_def key_text_def object_prototype_keys_def caught_def
  call_onError_def call_onResponse_def call_onComplete_def errorResponseFor_def
  parse_choices_def parse_anthropic_def or_zero_def
  or_string_def or_nat_def error_message_def empty_body_def ok_reply_def
  enumerate_eq_zip Let_def

lemma cost_of_ten_openai_tokens: "calculateCost ''openai'' 10 = round_double 0.0001"
  by (simp add: calculateCost_def costPer1kTokens_def double_eval Let_def)

text \<open>The scenario of the specification: \<open>openai\<close> has a key and answers \<open>hello\<close> with
  10 tokens, \<open>anthropic\<close> has no key. The cost is the double written \<open>0.0001\<close>.\<close>

theorem one_outcome_per_provider_witness:
  "(\<forall>p m. call_onError no_callbacks p m = None)
   \<and> responses (sendMessage no_callbacks None (\<lambda>i. answering) ''X'' [''openai'', ''anthropic'']
                  [''openai'' \<mapsto> ''k1''])
       = [\<lparr> providerId = ''openai'', response = ''hello'',
             batch_metadata = \<lparr> tokensUsed = 10, responseTime = 250, model = ''gpt-4-turbo'',
                                cost = round_double 0.0001 \<rparr>,
             error = None \<rparr>,
          errorResponseFor ''anthropic'' 0 ''No API key configured for anthropic'']
   \<and> length (filter is_success (responses (sendMessage no_callbacks None (\<lambda>i. answering) ''X''
                  [''openai'', ''anthropic''] [''openai'' \<mapsto> ''k1''])))
     + length (filter is_failure (responses (sendMessage no_callbacks None (\<lambda>i. answering) ''X''
                  [''openai'', ''anthropic''] [''openai'' \<mapsto> ''k1''])))
     = 2"
proof -
  have h: "\<forall>p m. call_onError no_callbacks p m = None"
    by (simp add: call_onError_def no_callbacks_def)
  have r: "responses (sendMessage no_callbacks None (\<lambda>i. answering) ''X'' [''openai'', ''anthropic'']
                  [''openai'' \<mapsto> ''k1''])
       = [\<lparr> providerId = ''openai'', response = ''hello'',
             batch_metadata = \<lparr> tokensUsed = 10, responseTime = 250, model = ''gpt-4-turbo'',
                                cost = round_double 0.0001 \<rparr>,
             error = None \<rparr>,
          errorResponseFor ''anthropic'' 0 ''No API key configured for anthropic'']"
    by (simp add: dispatch_eval no_callbacks_def answering_def hello_body_def
          cost_of_ten_openai_tokens round_double_not_NaN)
  from one_outcome_per_provider [OF h, of None "\<lambda>i. answering" "''X''" "[''openai'', ''anthropic'']"
      "[''openai'' \<mapsto> ''k1'']"]
  show ?thesis using h r by simp
qed

text \<open>
  Against claim C1 as stated: when \<open>onError\<close> throws, the promise of a provider without a
  key is rejected, and the loop over the settled promises keeps only the fulfilled ones.
  One provider was requested and the returned list is empty.
\<close>

theorem throwing_onError_drops_outcome:
  "responses (sendMessage throwing_onError None (\<lambda>i. answering) ''X'' [''anthropic''] Map.empty) = []
   \<and> length (filter is_success (responses (sendMessage throwing_onError None (\<lambda>i. answering) ''X''
                  [''anthropic''] Map.empty)))
     + length (filter is_failure (responses (sendMessage throwing_onError None (\<lambda>i. answering) ''X''
                  [''anthropic''] Map.empty)))
     \<noteq> length [''anthropic'']"
proof -
  have "responses (sendMessage throwing_onError None (\<lambda>i. answering) ''X'' [''anthropic''] Map.empty) = []"
    by (simp add: dispatch_eval throwing_onError_def)
  then show ?thesis by simp
qed

subsection \<open>Dispatch: missing credentials\<close>









text \<open>An id that names an inherited member is not treated as missing: with no own
  entries at all, the id \<open>constructor\<close> reaches \<open>callProvider\<close>, which issues no request
  and fails on the inherited configuration.\<close>

lemma inherited_id_reaches_callProvider:
  "traces (sendMessage no_callbacks None (\<lambda>i. answering) ''X'' [''constructor''] Map.empty)
     = [[CallProvider ''constructor'' ''X'' KeyInherited]]
   \<and> responses (sendMessage no_callbacks None (\<lambda>i. answering) ''X'' [''constructor''] Map.empty)
     = [errorResponseFor ''constructor'' 250 ''config.headers is not a function'']"
  by (simp add: dispatch_eval no_callbacks_def answering_def)

subsection \<open>Dispatch: cancellation\<close>

text \<open>
  Claim C6. An aborted call should give a Cancelled outcome that can be told apart from a
  provider failure. The code tests \<open>err.name === 'AbortError'\<close> only in the outer \<open>catch\<close>
  of \<open>sendMessage\<close>; a call whose \<open>fetch\<close> is rejected with an \<open>AbortError\<close> is caught before
  that by the task's own \<open>catch\<close>, which keeps only the message. Its outcome is equal to the
  outcome of a provider that answers with status 500 and the same message, and the hook's
  error state is not set to \<open>Request cancelled\<close>.
\<close>

theorem abort_outcome_equals_provider_failure:
  "fetch_reply aborted = Rejected (Error ''AbortError'' ''The user aborted a request.'')
   \<and> responses (sendMessage no_callbacks None (\<lambda>i. aborted) ''X'' [''openai''] [''openai'' \<mapsto> ''k1''])
       = [errorResponseFor ''openai'' 250 ''The user aborted a request.'']
   \<and> responses (sendMessage no_callbacks None (\<lambda>i. failing_with_abort_text) ''X'' [''openai'']
                  [''openai'' \<mapsto> ''k1''])
       = responses (sendMessage no_callbacks None (\<lambda>i. aborted) ''X'' [''openai''] [''openai'' \<mapsto> ''k1''])
   \<and> hook_error (final_state (sendMessage no_callbacks None (\<lambda>i. aborted) ''X'' [''openai'']
                  [''openai'' \<mapsto> ''k1''])) = None"
proof -
  have a: "responses (sendMessage no_callbacks None (\<lambda>i. aborted) ''X'' [''openai''] [''openai'' \<mapsto> ''k1''])
       = [errorResponseFor ''openai'' 250 ''The user aborted a request.'']"
    by (simp add: dispatch_eval no_callbacks_def aborted_def)
  have b: "responses (sendMessage no_callbacks None (\<lambda>i. failing_with_abort_text) ''X'' [''openai'']
                  [''openai'' \<mapsto> ''k1''])
       = [errorResponseFor ''openai'' 250 ''The user aborted a request.'']"
    by (simp add: dispatch_eval no_callbacks_def failing_with_abort_text_def)
  have c: "hook_error (final_state (sendMessage no_callbacks None (\<lambda>i. aborted) ''X'' [''openai'']
                  [''openai'' \<mapsto> ''k1''])) = None"
    by (simp add: sendMessage_def Let_def call_onComplete_def no_callbacks_def)
  have d: "fetch_reply aborted = Rejected (Error ''AbortError'' ''The user aborted a request.'')"
    by (simp add: aborted_def)
  from a b c d show ?thesis by simp
qed

end
